theory Spec2Isabelle
  imports Complex_Main
begin

section \<open>Rate limiting middleware of Glance (glance/api/middleware/ratelimit.py)\<close>

text \<open>
  The middleware keeps, for every bucket key, a virtual timestamp in a shared memcache
  and derives from it how long a request has to sleep, or that it is rejected (HTTP 429).

  Conventions of the embedding:
  \<^item> Python floats (rates, seconds, \<open>time.time()\<close>) are exact rationals (\<open>rat\<close>);
    Python integers (clock units, stored counters) are \<open>int\<close>.
  \<^item> an exception is a value of \<open>exn\<close>, and a function that may raise returns
    \<open>exn + 'a\<close> (\<open>Inl\<close> the exception) together with the world it leaves behind.
  \<^item> the world holds what the code mutates or reads from outside: the attribute
    \<open>self.memcache_client\<close>, the clock read by \<open>time.time()\<close> and advanced by
    \<open>eventlet.sleep\<close>, and the records handed to \<open>LOG\<close>.
  \<^item> the memcache client class (glance.common.memcached) is taken as a parameter: a
    record of its three methods over the client's state \<open>'s\<close>. The in-memory client of
    the unit tests, \<open>FakeMemcache\<close>, is embedded as one such client.
\<close>

subsection \<open>Exceptions, log records, responses\<close>

datatype exn =
    MemcacheConnectionError
  | MaxSleepTimeHitError rat   \<comment> \<open>carries the seconds printed in its message\<close>
  | ValueError "string option" \<comment> \<open>carries the action printed in its message\<close>
  | ZeroDivisionError
  | AttributeError

datatype log_record =
    Error_exn exn                 \<comment> \<open>\<open>LOG.error(e)\<close>\<close>
  | Error_client_is_None          \<comment> \<open>\<open>LOG.error("handle_ratelimit: memcache_client is None")\<close>\<close>
  | Error_not_in_env string       \<comment> \<open>\<open>LOG.error("ERROR: %s could not be found in env!")\<close>\<close>
  | Warning_sleep_log rat string  \<comment> \<open>\<open>LOG.warning("Ratelimit sleep log: %s for %s")\<close>\<close>
  | Warning_returning nat string  \<comment> \<open>\<open>LOG.warning("Returning %d for %s")\<close>\<close>
  | Warning_no_memcache           \<comment> \<open>\<open>LOG.warning("Warning: Cannot ratelimit without ...")\<close>\<close>
  | Info_no_token                 \<comment> \<open>\<open>LOG.info("No x-auth-token found in headers, ...")\<close>\<close>
  | Debug_action string           \<comment> \<open>\<open>LOG.debug("Request contains rate limitable action")\<close>\<close>

record response =
  status :: string
  body :: string

datatype wsgi_result =
    App_result               \<comment> \<open>\<open>self.app(env, start_response)\<close>\<close>
  | Error_result response    \<comment> \<open>\<open>ratelimit_resp(env, start_response)\<close>\<close>

subsection \<open>The memcache client\<close>

text \<open>
  The three methods the middleware calls. Each takes the client's state and returns its
  result, or the exception it raised, with the state it leaves. The values stored are
  integers: \<open>set\<close> is given \<open>str(n)\<close> of an integer and \<open>incr\<close> reads it back with
  \<open>int\<close>, so the text form is not modelled.
\<close>

record 's memcache_client_ops =
  incr :: "string \<Rightarrow> int \<Rightarrow> 's \<Rightarrow> (exn + int) \<times> 's"
  decr :: "string \<Rightarrow> int \<Rightarrow> 's \<Rightarrow> (exn + int) \<times> 's"
  set' :: "string \<Rightarrow> int \<Rightarrow> 's \<Rightarrow> (exn + bool) \<times> 's"

text \<open>\<open>FakeMemcache\<close> of glance/tests/unit/test_ratelimit.py.\<close>

record FakeMemcache =
  store :: "string \<rightharpoonup> int"
  error_on_incr :: bool
  init_incr_return_neg :: bool

definition FakeMemcache_init :: FakeMemcache where
  "FakeMemcache_init =
     \<lparr>store = Map.empty, error_on_incr = False, init_incr_return_neg = False\<rparr>"

definition fake_set :: "string \<Rightarrow> int \<Rightarrow> FakeMemcache \<Rightarrow> (exn + bool) \<times> FakeMemcache" where
  "fake_set key v m = (Inr True, m\<lparr>store := (store m)(key \<mapsto> v)\<rparr>)"

definition fake_incr :: "string \<Rightarrow> int \<Rightarrow> FakeMemcache \<Rightarrow> (exn + int) \<times> FakeMemcache" where
  "fake_incr key delta m =
     (if error_on_incr m then (Inl MemcacheConnectionError, m)
      else if init_incr_return_neg m
        then (Inr (- 10000000), m\<lparr>init_incr_return_neg := False\<rparr>)
      else
        let v = (case store m key of None \<Rightarrow> 0 | Some x \<Rightarrow> x) + delta;
            v = (if v < 0 then 0 else v)
        in (Inr v, m\<lparr>store := (store m)(key \<mapsto> v)\<rparr>))"

definition fake_decr :: "string \<Rightarrow> int \<Rightarrow> FakeMemcache \<Rightarrow> (exn + int) \<times> FakeMemcache" where
  "fake_decr key delta m = fake_incr key (- delta) m"

definition FakeMemcache_ops :: "FakeMemcache memcache_client_ops" where
  "FakeMemcache_ops = \<lparr>incr = fake_incr, decr = fake_decr, set' = fake_set\<rparr>"

text \<open>
  \<open>FakeMemcache\<close> can only fail in \<open>incr\<close>. A client whose connection is lost
  after the increment is \<open>FakeMemcache\<close> with a \<open>set\<close>, or a \<open>decr\<close>, that
  raises \<open>MemcacheConnectionError\<close> and leaves the store as it is.
\<close>

definition lost_connection :: "string \<Rightarrow> int \<Rightarrow> FakeMemcache \<Rightarrow> (exn + 'a) \<times> FakeMemcache" where
  "lost_connection key v m = (Inl MemcacheConnectionError, m)"

definition FakeMemcache_set_lost_ops :: "FakeMemcache memcache_client_ops" where
  "FakeMemcache_set_lost_ops = \<lparr>incr = fake_incr, decr = fake_decr, set' = lost_connection\<rparr>"

definition FakeMemcache_decr_lost_ops :: "FakeMemcache memcache_client_ops" where
  "FakeMemcache_decr_lost_ops = \<lparr>incr = fake_incr, decr = lost_connection, set' = fake_set\<rparr>"

subsection \<open>Configuration, request, world\<close>

text \<open>The attributes \<open>__init__\<close> reads from the configuration, with their defaults.\<close>

record conf =
  clock_accuracy :: int
  rate_buffer_seconds :: int
  max_sleep_time_seconds :: rat
  log_sleep_time_seconds :: rat
  account_ratelimit :: rat
  image_list :: rat
  image_download :: rat
  image_register :: rat
  image_upload :: rat
  image_update :: rat

definition default_conf :: conf where
  "default_conf =
     \<lparr>clock_accuracy = 1000, rate_buffer_seconds = 5, max_sleep_time_seconds = 60,
      log_sleep_time_seconds = 0, account_ratelimit = 0, image_list = 0,
      image_download = 0, image_register = 0, image_upload = 0, image_update = 0\<rparr>"

text \<open>
  What the middleware reads from a request: \<open>req.method\<close>, the header \<open>x-auth-token\<close>, the
  entry \<open>glance.cache\<close> of the WSGI environment, and the action that
  \<open>self.mapper.match(environ=env)\<close> finds for it (the routes library is not part of
  the repository, so its answer is a field of the request).
\<close>

record 's request =
  req_method :: string
  x_auth_token :: "string option"
  glance_cache :: "'s option"
  matched_action :: "string option"

record 's world =
  memcache_client :: "'s option"  \<comment> \<open>\<open>self.memcache_client\<close>, \<open>None\<close> until the first call\<close>
  time_ticker :: rat              \<comment> \<open>what \<open>time.time()\<close> returns, in seconds\<close>
  log :: "log_record list"

definition LOG :: "log_record \<Rightarrow> 's world \<Rightarrow> 's world" where
  "LOG r w = w\<lparr>log := log w @ [r]\<rparr>"

text \<open>\<open>eventlet.sleep\<close>: the clock moves on by the time slept.\<close>

definition sleep :: "rat \<Rightarrow> 's world \<Rightarrow> 's world" where
  "sleep x w = w\<lparr>time_ticker := time_ticker w + x\<rparr>"

text \<open>\<open>int(round(x))\<close> of Python 2: to the nearest integer, halves away from zero.\<close>

definition py_round :: "rat \<Rightarrow> int" where
  "py_round x = (if 0 \<le> x then \<lfloor>x + 1 / 2\<rfloor> else \<lceil>x - 1 / 2\<rceil>)"

subsection \<open>Policy resolution\<close>

definition limitable_methods :: "string list" where
  "limitable_methods = [''GET'', ''PUT'', ''POST'', ''DELETE'', ''HEAD'']"

definition get_limit_for_action :: "conf \<Rightarrow> string option \<Rightarrow> exn + rat" where
  "get_limit_for_action c action =
     (let limit = None;
          limit = (if action = Some ''image_list'' then Some (image_list c) else limit);
          limit = (if action = Some ''image_download'' then Some (image_download c) else limit);
          limit = (if action = Some ''image_register'' then Some (image_register c) else limit);
          limit = (if action = Some ''image_upload'' then Some (image_upload c) else limit);
          limit = (if action = Some ''image_update'' then Some (image_update c) else limit)
      in case limit of None \<Rightarrow> Inl (ValueError action) | Some l \<Rightarrow> Inr l)"

text \<open>\<open>"%s" % action\<close>.\<close>

definition str_action :: "string option \<Rightarrow> string" where
  "str_action action = (case action of None \<Rightarrow> ''None'' | Some a \<Rightarrow> a)"

text \<open>
  The only exception \<open>_get_limit_for_action\<close> raises is \<open>ValueError\<close>, which is logged
  and leaves \<open>limit = 0\<close>.
\<close>

definition get_ratelimitable_key_tuples ::
  "conf \<Rightarrow> 's request \<Rightarrow> string \<Rightarrow> string option \<Rightarrow> 's world \<Rightarrow> (string \<times> rat) list \<times> 's world" where
  "get_ratelimitable_key_tuples c req auth_tok action w =
     (let keys = [];
          keys = (if req_method req \<in> set limitable_methods \<and> account_ratelimit c \<noteq> 0
                  then keys @ [(''ratelimit/'' @ auth_tok, account_ratelimit c)] else keys);
          (limit, w) = (case get_limit_for_action c action of
                          Inr l \<Rightarrow> (l, w)
                        | Inl e \<Rightarrow> (0, LOG (Error_exn e) w));
          keys = (if limit > 0
                  then keys @ [(''ratelimit/'' @ auth_tok @ ''/'' @ str_action action, limit)]
                  else keys)
      in (keys, w))"

subsection \<open>The admission engine\<close>

text \<open>
  The body of the \<open>try\<close> in \<open>_get_sleep_time\<close>. Dividing by a zero rate or by a zero
  clock accuracy raises \<open>ZeroDivisionError\<close>; calling a method of the client while
  \<open>self.memcache_client\<close> is \<open>None\<close> raises \<open>AttributeError\<close>. Products and
  comparisons of floats are exact here: where the code decides a test within floating-point
  rounding error of its threshold, the two can differ, and a rate so small or so large that
  the float quotient overflows or vanishes is not represented.
\<close>

definition get_sleep_time_try ::
  "'s memcache_client_ops \<Rightarrow> conf \<Rightarrow> string \<Rightarrow> rat \<Rightarrow> 's world \<Rightarrow> (exn + rat) \<times> 's world" where
  "get_sleep_time_try cl c key max_rate w =
     (let now_m = py_round (time_ticker w * of_int (clock_accuracy c)) in
      if max_rate = 0 then (Inl ZeroDivisionError, w)
      else
        let time_per_request_m = py_round (of_int (clock_accuracy c) / max_rate) in
        case memcache_client w of
          None \<Rightarrow> (Inl AttributeError, w)
        | Some m \<Rightarrow>
          (case incr cl key time_per_request_m m of
             (Inl e, m) \<Rightarrow> (Inl e, w\<lparr>memcache_client := Some m\<rparr>)
           | (Inr running_time_m, m) \<Rightarrow>
             (case (if now_m - running_time_m > rate_buffer_seconds c * clock_accuracy c
                    then (case set' cl key (now_m + time_per_request_m) m of
                            (Inl e, m) \<Rightarrow> (Inl e, m)
                          | (Inr _, m) \<Rightarrow> (Inr 0, m))
                    else (Inr (max (running_time_m - now_m - time_per_request_m) 0), m)) of
                (Inl e, m) \<Rightarrow> (Inl e, w\<lparr>memcache_client := Some m\<rparr>)
              | (Inr need_to_sleep_m, m) \<Rightarrow>
                (let max_sleep_m = max_sleep_time_seconds c * of_int (clock_accuracy c) in
                 if max_sleep_m - of_int need_to_sleep_m \<le> of_int (clock_accuracy c) * (1 / 100)
                 then (case decr cl key time_per_request_m m of
                         (Inl e, m) \<Rightarrow> (Inl e, w\<lparr>memcache_client := Some m\<rparr>)
                       | (Inr _, m) \<Rightarrow>
                           (if clock_accuracy c = 0
                            then (Inl ZeroDivisionError, w\<lparr>memcache_client := Some m\<rparr>)
                            else (Inl (MaxSleepTimeHitError
                                         (of_int need_to_sleep_m / of_int (clock_accuracy c))),
                                  w\<lparr>memcache_client := Some m\<rparr>)))
                 else if clock_accuracy c = 0
                   then (Inl ZeroDivisionError, w\<lparr>memcache_client := Some m\<rparr>)
                   else (Inr (of_int need_to_sleep_m / of_int (clock_accuracy c)),
                         w\<lparr>memcache_client := Some m\<rparr>)))))"

text \<open>\<open>_get_sleep_time\<close>: the \<open>try\<close> with its handler for \<open>MemcacheConnectionError\<close>.\<close>

definition get_sleep_time ::
  "'s memcache_client_ops \<Rightarrow> conf \<Rightarrow> string \<Rightarrow> rat \<Rightarrow> 's world \<Rightarrow> (exn + rat) \<times> 's world" where
  "get_sleep_time cl c key max_rate w =
     (case get_sleep_time_try cl c key max_rate w of
        (Inl e, w) \<Rightarrow>
          (if e = MemcacheConnectionError then (Inr 0, LOG (Error_exn e) w) else (Inl e, w))
      | (Inr need_to_sleep, w) \<Rightarrow> (Inr need_to_sleep, w))"

definition HTTP_TOO_MANY_REQUESTS :: nat where
  "HTTP_TOO_MANY_REQUESTS = 429"

definition error_resp :: response where
  "error_resp = \<lparr>status = ''429 Rate Limited'', body = ''Slow down''\<rparr>"

text \<open>The \<open>for key, max_rate in limits\<close> loop of \<open>handle_ratelimit\<close>.\<close>

fun handle_ratelimit_loop ::
  "'s memcache_client_ops \<Rightarrow> conf \<Rightarrow> (string \<times> rat) list \<Rightarrow> 's world
     \<Rightarrow> (exn + response option) \<times> 's world" where
  "handle_ratelimit_loop cl c [] w = (Inr None, w)"
| "handle_ratelimit_loop cl c ((key, max_rate) # limits) w =
     (case get_sleep_time cl c key max_rate w of
        (Inr need_to_sleep, w) \<Rightarrow>
          (let w = (if log_sleep_time_seconds c \<noteq> 0 \<and> need_to_sleep > log_sleep_time_seconds c
                    then LOG (Warning_sleep_log need_to_sleep key) w else w);
               w = (if need_to_sleep > 0 then sleep need_to_sleep w else w)
           in handle_ratelimit_loop cl c limits w)
      | (Inl (MaxSleepTimeHitError s), w) \<Rightarrow>
          (Inr (Some error_resp), LOG (Warning_returning HTTP_TOO_MANY_REQUESTS key) w)
      | (Inl e, w) \<Rightarrow> (Inl e, w))"

definition handle_ratelimit ::
  "'s memcache_client_ops \<Rightarrow> conf \<Rightarrow> 's request \<Rightarrow> string \<Rightarrow> string option \<Rightarrow> 's world
     \<Rightarrow> (exn + response option) \<times> 's world" where
  "handle_ratelimit cl c req auth_tok action w =
     (if memcache_client w = None then (Inr None, LOG Error_client_is_None w)
      else
        let (limits, w) = get_ratelimitable_key_tuples c req auth_tok action w
        in handle_ratelimit_loop cl c limits w)"

subsection \<open>The WSGI entry point\<close>

text \<open>\<open>cache_from_env\<close>, with the error \<open>item_from_env\<close> logs when the entry is missing.\<close>

definition cache_from_env :: "'s request \<Rightarrow> 's world \<Rightarrow> 's option \<times> 's world" where
  "cache_from_env req w =
     (case glance_cache req of
        None \<Rightarrow> (None, LOG (Error_not_in_env ''glance.cache'') w)
      | Some m \<Rightarrow> (Some m, w))"

definition call ::
  "'s memcache_client_ops \<Rightarrow> conf \<Rightarrow> 's request \<Rightarrow> 's world \<Rightarrow> (exn + wsgi_result) \<times> 's world" where
  "call cl c req w =
     (let w = (if memcache_client w = None
               then (let (m, w) = cache_from_env req w in w\<lparr>memcache_client := m\<rparr>)
               else w)
      in if memcache_client w = None then (Inr App_result, LOG Warning_no_memcache w)
         else
           (case x_auth_token req of
              None \<Rightarrow> (Inr App_result, LOG Info_no_token w)
            | Some account \<Rightarrow>
              (let action = matched_action req;
                   w = (case action of
                          None \<Rightarrow> w
                        | Some a \<Rightarrow> if a \<noteq> [] then LOG (Debug_action a) w else w)
               in case handle_ratelimit cl c req account action w of
                    (Inl e, w) \<Rightarrow> (Inl e, w)
                  | (Inr None, w) \<Rightarrow> (Inr App_result, w)
                  | (Inr (Some ratelimit_resp), w) \<Rightarrow> (Inr (Error_result ratelimit_resp), w))))"

text \<open>
  The loop of \<open>_run\<close> in the unit tests: the same request is sent \<open>num\<close> times, one
  after the other.
\<close>

fun run :: "'s memcache_client_ops \<Rightarrow> conf \<Rightarrow> 's request \<Rightarrow> nat \<Rightarrow> 's world
              \<Rightarrow> (exn + wsgi_result list) \<times> 's world" where
  "run cl c req 0 w = (Inr [], w)"
| "run cl c req (Suc num) w =
     (case call cl c req w of
        (Inl e, w) \<Rightarrow> (Inl e, w)
      | (Inr r, w) \<Rightarrow>
          (case run cl c req num w of
             (Inl e, w) \<Rightarrow> (Inl e, w)
           | (Inr rs, w) \<Rightarrow> (Inr (r # rs), w)))"

subsection \<open>Relations used in the proofs\<close>

text \<open>Two worlds that differ at most in what has been logged.\<close>

definition same_but_log :: "'s world \<Rightarrow> 's world \<Rightarrow> bool" where
  "same_but_log w w' \<longleftrightarrow>
     memcache_client w = memcache_client w' \<and> time_ticker w = time_ticker w'"

text \<open>
  The state of a bucket after \<open>k\<close> requests sent one after the other, each sleeping
  the delay it was given: the bucket holds \<open>now0 + k * tpr\<close> and the clock stands at
  \<open>t0 + (k - 1) * tpr\<close> clock units.
\<close>

definition paced :: "string \<Rightarrow> int \<Rightarrow> rat \<Rightarrow> int \<Rightarrow> nat \<Rightarrow> FakeMemcache world \<Rightarrow> bool" where
  "paced key now0 t0 tpr k w \<longleftrightarrow>
     (case memcache_client w of
        None \<Rightarrow> False
      | Some m \<Rightarrow> store m key = Some (now0 + int k * tpr)
                  \<and> \<not> error_on_incr m \<and> \<not> init_incr_return_neg m)
     \<and> time_ticker w = t0 + of_nat (k - 1) * of_int tpr / 1000"

section \<open>Evaluation and arithmetic lemmas\<close>

lemmas eval_defs =
  call_def cache_from_env_def handle_ratelimit_def get_ratelimitable_key_tuples_def
  get_limit_for_action_def get_sleep_time_def get_sleep_time_try_def default_conf_def
  FakeMemcache_ops_def FakeMemcache_init_def fake_incr_def fake_decr_def fake_set_def
  py_round_def Let_def LOG_def sleep_def limitable_methods_def str_action_def
  error_resp_def HTTP_TOO_MANY_REQUESTS_def
  lost_connection_def FakeMemcache_set_lost_ops_def FakeMemcache_decr_lost_ops_def

lemma floor_rat_divide_numeral [simp]:
  "\<lfloor>numeral a / numeral b :: rat\<rfloor> = numeral a div numeral b"
  by (metis floor_divide_of_int_eq of_int_numeral)

lemma floor_rat_one_divide_numeral [simp]:
  "\<lfloor>1 / numeral b :: rat\<rfloor> = 1 div numeral b"
  by (metis floor_divide_of_int_eq of_int_1 of_int_numeral)

lemma ceiling_rat_minus_divide_numeral [simp]:
  "\<lceil>- (numeral a / numeral b) :: rat\<rceil> = - (numeral a div numeral b)"
  by (simp add: ceiling_def)

lemma py_round_add_int:
  assumes "0 \<le> x" "0 \<le> n"
  shows "py_round (x + of_int n) = py_round x + n"
proof -
  have "x + of_int n + 1 / 2 = (x + 1 / 2) + of_int n" by simp
  then have "\<lfloor>x + of_int n + 1 / 2\<rfloor> = \<lfloor>x + 1 / 2\<rfloor> + n"
    by (simp only: floor_add_int)
  with assms show ?thesis by (simp add: py_round_def)
qed

lemma py_round_nonneg: "0 \<le> x \<Longrightarrow> 0 \<le> py_round x"
  by (simp add: py_round_def)

lemma py_round_mono_ge:
  assumes "of_int n \<le> x" "0 \<le> x"
  shows "n \<le> py_round x"
proof -
  have "of_int n \<le> x + 1 / 2" using assms by simp
  then have "n \<le> \<lfloor>x + 1 / 2\<rfloor>" by (simp add: le_floor_iff)
  with assms show ?thesis by (simp add: py_round_def)
qed

section \<open>What one bucket check leaves unchanged\<close>

lemma no_connection_error_escapes:
  "fst (get_sleep_time cl c key max_rate w) \<noteq> Inl MemcacheConnectionError"
  by (auto simp: get_sleep_time_def split: prod.splits sum.splits)



lemma key_tuples_world:
  "memcache_client (snd (get_ratelimitable_key_tuples c req auth_tok action w)) = memcache_client w
   \<and> time_ticker (snd (get_ratelimitable_key_tuples c req auth_tok action w)) = time_ticker w"
  by (simp add: get_ratelimitable_key_tuples_def Let_def LOG_def split: sum.splits)

lemma key_tuples_rate_nonzero:
  "(k, r) \<in> set (fst (get_ratelimitable_key_tuples c req auth_tok action w)) \<Longrightarrow> r \<noteq> 0"
  by (auto simp: get_ratelimitable_key_tuples_def Let_def split: sum.splits if_splits)

lemma call_attach:
  assumes "memcache_client w = None" "glance_cache req = Some m"
  shows "call cl c req w = call cl c req (w\<lparr>memcache_client := Some m\<rparr>)"
  using assms by (simp add: call_def cache_from_env_def)

section \<open>The delay of a busy bucket\<close>

text \<open>
  C1. For a bucket with maximum rate \<open>R > 0\<close>: when the increment succeeds, the bucket is
  not idle-reset (\<open>now - runningTime \<le> rate_buffer_seconds * clock_accuracy\<close>) and the
  rejection condition does not hold, \<open>_get_sleep_time\<close> returns exactly
  \<open>max(runningTime - now - timePerRequest, 0) / clock_accuracy\<close> seconds, where
  \<open>timePerRequest = round(clock_accuracy / R)\<close>, \<open>now = round(time * clock_accuracy)\<close>
  and \<open>runningTime\<close> is the value the increment of the bucket by \<open>timePerRequest\<close>
  returned. The client is left in the state the increment produced.
\<close>

theorem sleep_time_busy:
  assumes rate: "0 < max_rate"
    and client: "memcache_client w = Some m"
    and now: "now_m = py_round (time_ticker w * of_int (clock_accuracy c))"
    and tpr: "time_per_request_m = py_round (of_int (clock_accuracy c) / max_rate)"
    and incr: "incr cl key time_per_request_m m = (Inr running_time_m, m')"
    and busy: "now_m - running_time_m \<le> rate_buffer_seconds c * clock_accuracy c"
    and need: "need_to_sleep_m = max (running_time_m - now_m - time_per_request_m) 0"
    and admitted: "\<not> max_sleep_time_seconds c * of_int (clock_accuracy c) - of_int need_to_sleep_m
                       \<le> of_int (clock_accuracy c) * (1 / 100)"
  shows "get_sleep_time cl c key max_rate w =
           (Inr (of_int need_to_sleep_m / of_int (clock_accuracy c)),
            w\<lparr>memcache_client := Some m'\<rparr>)"
proof -
  have nz: "clock_accuracy c \<noteq> 0"
  proof
    assume "clock_accuracy c = 0"
    with admitted need show False by simp
  qed
  have "get_sleep_time_try cl c key max_rate w =
           (Inr (of_int need_to_sleep_m / of_int (clock_accuracy c)),
            w\<lparr>memcache_client := Some m'\<rparr>)"
    using rate client incr busy admitted nz
    unfolding get_sleep_time_try_def now [symmetric] tpr [symmetric] Let_def need
    by simp
  then show ?thesis by (simp add: get_sleep_time_def)
qed

text \<open>
  Rate 5 on the default configuration, the bucket at 600 and the clock at 0.1 s: the
  increment returns 800 and the request sleeps (800 - 100 - 200) / 1000 seconds.
\<close>

theorem sleep_time_busy_witness:
  "get_sleep_time FakeMemcache_ops (default_conf\<lparr>account_ratelimit := 5\<rparr>) ''ratelimit/tok'' 5
     \<lparr>memcache_client = Some (FakeMemcache_init\<lparr>store := [''ratelimit/tok'' \<mapsto> 600]\<rparr>),
      time_ticker = 1 / 10, log = []\<rparr>
   = (Inr (1 / 2),
      \<lparr>memcache_client = Some (FakeMemcache_init\<lparr>store := [''ratelimit/tok'' \<mapsto> 800]\<rparr>),
       time_ticker = 1 / 10, log = []\<rparr>)"
proof -
  let ?c = "default_conf\<lparr>account_ratelimit := 5\<rparr>"
  let ?m = "FakeMemcache_init\<lparr>store := [''ratelimit/tok'' \<mapsto> 600]\<rparr>"
  let ?w = "\<lparr>memcache_client = Some ?m, time_ticker = 1 / 10, log = []\<rparr>"
  have "get_sleep_time FakeMemcache_ops ?c ''ratelimit/tok'' 5 ?w =
          (Inr (of_int 500 / of_int (clock_accuracy ?c)),
           ?w\<lparr>memcache_client := Some (FakeMemcache_init\<lparr>store := [''ratelimit/tok'' \<mapsto> 800]\<rparr>)\<rparr>)"
    by (rule sleep_time_busy [where m = ?m and now_m = 100 and time_per_request_m = 200
          and running_time_m = 800])
       (simp_all add: eval_defs)
  then show ?thesis by (simp add: default_conf_def)
qed

section \<open>Rejection and the stored value\<close>

lemma get_sleep_time_reject:
  assumes client: "memcache_client w = Some m"
    and rate: "max_rate \<noteq> 0"
    and ca: "clock_accuracy c \<noteq> 0"
    and now: "now_m = py_round (time_ticker w * of_int (clock_accuracy c))"
    and tpr: "time_per_request_m = py_round (of_int (clock_accuracy c) / max_rate)"
    and incr: "incr cl key time_per_request_m m = (Inr running_time_m, m1)"
    and busy: "now_m - running_time_m \<le> rate_buffer_seconds c * clock_accuracy c"
    and need: "need_to_sleep_m = max (running_time_m - now_m - time_per_request_m) 0"
    and reject: "max_sleep_time_seconds c * of_int (clock_accuracy c) - of_int need_to_sleep_m
                       \<le> of_int (clock_accuracy c) * (1 / 100)"
    and decr: "decr cl key time_per_request_m m1 = (Inr x, m2)"
  shows "get_sleep_time cl c key max_rate w =
           (Inl (MaxSleepTimeHitError (of_int need_to_sleep_m / of_int (clock_accuracy c))),
            w\<lparr>memcache_client := Some m2\<rparr>)"
proof -
  have "get_sleep_time_try cl c key max_rate w =
           (Inl (MaxSleepTimeHitError (of_int need_to_sleep_m / of_int (clock_accuracy c))),
            w\<lparr>memcache_client := Some m2\<rparr>)"
    using rate client incr busy reject ca decr
    unfolding get_sleep_time_try_def now [symmetric] tpr [symmetric] Let_def need
    by simp
  then show ?thesis by (simp add: get_sleep_time_def)
qed

lemma fake_incr_then_decr:
  assumes "\<not> error_on_incr m" "\<not> init_incr_return_neg m"
    and "v = (case store m key of None \<Rightarrow> 0 | Some x \<Rightarrow> x)"
    and "0 \<le> v" "0 \<le> v + d"
  shows "fake_incr key d m = (Inr (v + d), m\<lparr>store := (store m)(key \<mapsto> v + d)\<rparr>)"
    and "fake_decr key d (m\<lparr>store := (store m)(key \<mapsto> v + d)\<rparr>)
           = (Inr v, m\<lparr>store := (store m)(key \<mapsto> v)\<rparr>)"
  using assms by (simp_all add: fake_incr_def fake_decr_def Let_def)

text \<open>
  With a ceiling of 0 seconds every request is rejected. A bucket at 1000 that is read at
  100 s is idle: the increment returns 2000, the bucket is set to 101000, and the
  rejection takes 1000 off again. The bucket ends at 100000, not at the 1000 it held
  before the request.
\<close>

theorem reject_after_reset_counterexample:
  "fst (get_sleep_time FakeMemcache_ops
          (default_conf\<lparr>account_ratelimit := 1, max_sleep_time_seconds := 0\<rparr>) ''ratelimit/tok'' 1
          \<lparr>memcache_client = Some (FakeMemcache_init\<lparr>store := [''ratelimit/tok'' \<mapsto> 1000]\<rparr>),
           time_ticker = 100, log = []\<rparr>)
     = Inl (MaxSleepTimeHitError 0)
   \<and> store (the (memcache_client (snd (get_sleep_time FakeMemcache_ops
          (default_conf\<lparr>account_ratelimit := 1, max_sleep_time_seconds := 0\<rparr>) ''ratelimit/tok'' 1
          \<lparr>memcache_client = Some (FakeMemcache_init\<lparr>store := [''ratelimit/tok'' \<mapsto> 1000]\<rparr>),
           time_ticker = 100, log = []\<rparr>)))) ''ratelimit/tok''
     = Some 100000
   \<and> store (FakeMemcache_init\<lparr>store := [''ratelimit/tok'' \<mapsto> 1000]\<rparr>) ''ratelimit/tok''
     = Some 1000"
  by (simp add: eval_defs)

text \<open>
  C3, amended. When the rejection condition holds for a request that did not idle-reset
  its bucket, \<open>_get_sleep_time\<close> takes the same \<open>timePerRequest\<close> off the bucket that
  it added and raises \<open>MaxSleepTimeHitError\<close> with the wait in seconds; on
  \<open>FakeMemcache\<close>, with a stored value that is not negative and an increment that
  does not go below zero, the bucket then holds the value it held before the request.
\<close>

theorem reject_restores_bucket:
  assumes client: "memcache_client w = Some m"
    and up: "\<not> error_on_incr m" "\<not> init_incr_return_neg m"
    and rate: "max_rate \<noteq> 0"
    and ca: "clock_accuracy c \<noteq> 0"
    and now: "now_m = py_round (time_ticker w * of_int (clock_accuracy c))"
    and tpr: "time_per_request_m = py_round (of_int (clock_accuracy c) / max_rate)"
    and v: "v = (case store m key of None \<Rightarrow> 0 | Some x \<Rightarrow> x)"
    and nonneg: "0 \<le> v" "0 \<le> v + time_per_request_m"
    and running: "running_time_m = v + time_per_request_m"
    and busy: "now_m - running_time_m \<le> rate_buffer_seconds c * clock_accuracy c"
    and need: "need_to_sleep_m = max (running_time_m - now_m - time_per_request_m) 0"
    and reject: "max_sleep_time_seconds c * of_int (clock_accuracy c) - of_int need_to_sleep_m
                       \<le> of_int (clock_accuracy c) * (1 / 100)"
  shows "get_sleep_time FakeMemcache_ops c key max_rate w =
           (Inl (MaxSleepTimeHitError (of_int need_to_sleep_m / of_int (clock_accuracy c))),
            w\<lparr>memcache_client := Some (m\<lparr>store := (store m)(key \<mapsto> v)\<rparr>)\<rparr>)"
proof -
  let ?m1 = "m\<lparr>store := (store m)(key \<mapsto> v + time_per_request_m)\<rparr>"
  have i: "incr FakeMemcache_ops key time_per_request_m m = (Inr running_time_m, ?m1)"
    using fake_incr_then_decr(1) [OF up v nonneg] by (simp add: FakeMemcache_ops_def running)
  have d: "decr FakeMemcache_ops key time_per_request_m ?m1
             = (Inr v, m\<lparr>store := (store m)(key \<mapsto> v)\<rparr>)"
    using fake_incr_then_decr(2) [OF up v nonneg] by (simp add: FakeMemcache_ops_def)
  show ?thesis
    by (rule get_sleep_time_reject [OF client rate ca now tpr i busy need reject d])
qed

text \<open>
  Rate 1 with a ceiling of 1 s, the bucket at 3000 and the clock at 0: the wait would be
  3 s, the request is rejected and the bucket is back at 3000.
\<close>

theorem reject_restores_bucket_witness:
  "get_sleep_time FakeMemcache_ops
     (default_conf\<lparr>account_ratelimit := 1, max_sleep_time_seconds := 1\<rparr>) ''ratelimit/tok'' 1
     \<lparr>memcache_client = Some (FakeMemcache_init\<lparr>store := [''ratelimit/tok'' \<mapsto> 3000]\<rparr>),
      time_ticker = 0, log = []\<rparr>
   = (Inl (MaxSleepTimeHitError 3),
      \<lparr>memcache_client = Some (FakeMemcache_init\<lparr>store := [''ratelimit/tok'' \<mapsto> 3000]\<rparr>),
       time_ticker = 0, log = []\<rparr>)"
proof -
  let ?c = "default_conf\<lparr>account_ratelimit := 1, max_sleep_time_seconds := 1\<rparr>"
  let ?m = "FakeMemcache_init\<lparr>store := [''ratelimit/tok'' \<mapsto> 3000]\<rparr>"
  let ?w = "\<lparr>memcache_client = Some ?m, time_ticker = 0, log = []\<rparr>"
  have "get_sleep_time FakeMemcache_ops ?c ''ratelimit/tok'' 1 ?w =
          (Inl (MaxSleepTimeHitError (of_int 3000 / of_int (clock_accuracy ?c))),
           ?w\<lparr>memcache_client := Some (?m\<lparr>store := (store ?m)(''ratelimit/tok'' \<mapsto> 3000)\<rparr>)\<rparr>)"
    by (rule reject_restores_bucket [where now_m = 0 and time_per_request_m = 1000
          and running_time_m = 4000])
       (simp_all add: eval_defs)
  then show ?thesis by (simp add: default_conf_def FakeMemcache_init_def)
qed


section \<open>Rejection inside the bucket loop\<close>






section \<open>Fail-open on store errors\<close>

lemma incr_error_admits:
  assumes client: "memcache_client w = Some m"
    and rate: "max_rate \<noteq> 0"
    and incr: "incr cl key (py_round (of_int (clock_accuracy c) / max_rate)) m
                 = (Inl MemcacheConnectionError, m')"
  shows "get_sleep_time cl c key max_rate w
           = (Inr 0, LOG (Error_exn MemcacheConnectionError) (w\<lparr>memcache_client := Some m'\<rparr>))"
  using assms by (simp add: get_sleep_time_def get_sleep_time_try_def Let_def)

lemma loop_all_errors:
  assumes closed: "\<forall>s\<in>S. \<forall>k d. fst (incr cl k d s) = Inl MemcacheConnectionError \<and> snd (incr cl k d s) \<in> S"
    and client: "memcache_client w = Some m" "m \<in> S"
    and rates: "\<forall>(k, r)\<in>set limits. r \<noteq> 0"
  shows "fst (handle_ratelimit_loop cl c limits w) = Inr None
       \<and> time_ticker (snd (handle_ratelimit_loop cl c limits w)) = time_ticker w"
  using client rates
proof (induction limits arbitrary: w m)
  case Nil
  show ?case by simp
next
  case (Cons b limits)
  obtain key max_rate where b: "b = (key, max_rate)" by (cases b)
  from Cons.prems(3) b have rate: "max_rate \<noteq> 0" by simp
  let ?d = "py_round (of_int (clock_accuracy c) / max_rate)"
  obtain m' where i: "incr cl key ?d m = (Inl MemcacheConnectionError, m')" and m': "m' \<in> S"
    using closed Cons.prems(2) by (metis prod.collapse)
  let ?w1 = "LOG (Error_exn MemcacheConnectionError) (w\<lparr>memcache_client := Some m'\<rparr>)"
  have g: "get_sleep_time cl c key max_rate w = (Inr 0, ?w1)"
    by (rule incr_error_admits [OF Cons.prems(1) rate i])
  let ?w2 = "if log_sleep_time_seconds c \<noteq> 0 \<and> 0 > log_sleep_time_seconds c
             then LOG (Warning_sleep_log 0 key) ?w1 else ?w1"
  have c2: "memcache_client ?w2 = Some m'" and t2: "time_ticker ?w2 = time_ticker w"
    by (simp_all add: LOG_def)
  from Cons.prems(3) have "\<forall>(k, r)\<in>set limits. r \<noteq> 0" by simp
  from Cons.IH [OF c2 m' this] t2 show ?case
    by (simp add: b g Let_def)
qed

lemma handle_ratelimit_all_errors:
  assumes closed: "\<forall>s\<in>S. \<forall>k d. fst (incr cl k d s) = Inl MemcacheConnectionError \<and> snd (incr cl k d s) \<in> S"
    and client: "memcache_client w = Some m" "m \<in> S"
  shows "fst (handle_ratelimit cl c req auth_tok action w) = Inr None
       \<and> time_ticker (snd (handle_ratelimit cl c req auth_tok action w)) = time_ticker w"
proof -
  obtain limits w1 where k: "get_ratelimitable_key_tuples c req auth_tok action w = (limits, w1)"
    by (cases "get_ratelimitable_key_tuples c req auth_tok action w")
  have r: "\<forall>(k, r)\<in>set limits. r \<noteq> 0"
    using key_tuples_rate_nonzero [of _ _ c req auth_tok action w] k by auto
  have w1: "memcache_client w1 = Some m" "time_ticker w1 = time_ticker w"
    using key_tuples_world [of c req auth_tok action w] k client by simp_all
  from loop_all_errors [OF closed w1(1) client(2) r, of c] w1(2) show ?thesis
    by (simp add: handle_ratelimit_def client k)
qed

lemma call_attached_all_errors:
  assumes closed: "\<forall>s\<in>S. \<forall>k d. fst (incr cl k d s) = Inl MemcacheConnectionError \<and> snd (incr cl k d s) \<in> S"
    and client: "memcache_client w = Some m"
    and m: "m \<in> S"
  shows "fst (call cl c req w) = Inr App_result
       \<and> time_ticker (snd (call cl c req w)) = time_ticker w"
proof (cases "x_auth_token req")
  case None
  then show ?thesis
    using client by (simp add: call_def Let_def LOG_def)
next
  case (Some account)
  let ?w2 = "case matched_action req of None \<Rightarrow> w
             | Some a \<Rightarrow> if a \<noteq> [] then LOG (Debug_action a) w else w"
  have w2: "memcache_client ?w2 = Some m" "time_ticker ?w2 = time_ticker w"
    using client by (simp_all add: LOG_def split: option.splits)
  obtain r w3 where h: "handle_ratelimit cl c req account (matched_action req) ?w2 = (r, w3)"
    by (cases "handle_ratelimit cl c req account (matched_action req) ?w2")
  from handle_ratelimit_all_errors [OF closed w2(1) m, of c req account "matched_action req"] w2(2) h
  have "r = Inr None" "time_ticker w3 = time_ticker w" by simp_all
  then show ?thesis
    using client h by (simp add: call_def Let_def Some)
qed

lemma call_all_errors:
  assumes closed: "\<forall>s\<in>S. \<forall>k d. fst (incr cl k d s) = Inl MemcacheConnectionError \<and> snd (incr cl k d s) \<in> S"
    and client: "memcache_client w = Some m \<or> memcache_client w = None \<and> glance_cache req = Some m"
    and m: "m \<in> S"
  shows "fst (call cl c req w) = Inr App_result
       \<and> time_ticker (snd (call cl c req w)) = time_ticker w"
proof -
  from client consider "memcache_client w = Some m"
    | "memcache_client w = None" "glance_cache req = Some m" by auto
  then show ?thesis
  proof cases
    case 1
    then show ?thesis by (rule call_attached_all_errors [OF closed _ m])
  next
    case 2
    have "memcache_client (w\<lparr>memcache_client := Some m\<rparr>) = Some m" by simp
    from call_attached_all_errors [OF closed this m, of c req] show ?thesis
      by (simp add: call_attach [OF 2])
  qed
qed

lemma set_error_admits:
  assumes client: "memcache_client w = Some m"
    and rate: "max_rate \<noteq> 0"
    and now: "now_m = py_round (time_ticker w * of_int (clock_accuracy c))"
    and tpr: "time_per_request_m = py_round (of_int (clock_accuracy c) / max_rate)"
    and incr: "incr cl key time_per_request_m m = (Inr running_time_m, m_incr)"
    and idle: "now_m - running_time_m > rate_buffer_seconds c * clock_accuracy c"
    and set: "set' cl key (now_m + time_per_request_m) m_incr = (Inl MemcacheConnectionError, m_set)"
  shows "get_sleep_time cl c key max_rate w
           = (Inr 0, LOG (Error_exn MemcacheConnectionError) (w\<lparr>memcache_client := Some m_set\<rparr>))"
proof -
  have "get_sleep_time_try cl c key max_rate w
          = (Inl MemcacheConnectionError, w\<lparr>memcache_client := Some m_set\<rparr>)"
    using client rate incr idle set
    unfolding get_sleep_time_try_def now [symmetric] tpr [symmetric] Let_def
    by simp
  then show ?thesis by (simp add: get_sleep_time_def)
qed

lemma decr_error_admits:
  assumes client: "memcache_client w = Some m"
    and rate: "max_rate \<noteq> 0"
    and now: "now_m = py_round (time_ticker w * of_int (clock_accuracy c))"
    and tpr: "time_per_request_m = py_round (of_int (clock_accuracy c) / max_rate)"
    and incr: "incr cl key time_per_request_m m = (Inr running_time_m, m_incr)"
    and branch: "if now_m - running_time_m > rate_buffer_seconds c * clock_accuracy c
                 then set' cl key (now_m + time_per_request_m) m_incr = (Inr b, m_set)
                      \<and> need_to_sleep_m = 0
                 else m_set = m_incr
                      \<and> need_to_sleep_m = max (running_time_m - now_m - time_per_request_m) 0"
    and reject: "max_sleep_time_seconds c * of_int (clock_accuracy c) - of_int need_to_sleep_m
                       \<le> of_int (clock_accuracy c) * (1 / 100)"
    and decr: "decr cl key time_per_request_m m_set = (Inl MemcacheConnectionError, m_decr)"
  shows "get_sleep_time cl c key max_rate w
           = (Inr 0, LOG (Error_exn MemcacheConnectionError) (w\<lparr>memcache_client := Some m_decr\<rparr>))"
proof -
  have "get_sleep_time_try cl c key max_rate w
          = (Inl MemcacheConnectionError, w\<lparr>memcache_client := Some m_decr\<rparr>)"
  proof (cases "now_m - running_time_m > rate_buffer_seconds c * clock_accuracy c")
    case True
    with branch have "set' cl key (now_m + time_per_request_m) m_incr = (Inr b, m_set)"
      "need_to_sleep_m = 0" by simp_all
    then show ?thesis
      using client rate incr True reject decr
      unfolding get_sleep_time_try_def now [symmetric] tpr [symmetric] Let_def
      by simp
  next
    case False
    with branch have "m_set = m_incr"
      "need_to_sleep_m = max (running_time_m - now_m - time_per_request_m) 0" by simp_all
    then show ?thesis
      using client rate incr False reject decr
      unfolding get_sleep_time_try_def now [symmetric] tpr [symmetric] Let_def
      by simp
  qed
  then show ?thesis by (simp add: get_sleep_time_def)
qed

text \<open>
  C5. If a call of the memcache client raises \<open>MemcacheConnectionError\<close> during the
  bucket check, \<open>_get_sleep_time\<close> logs it and returns a delay of 0: when the
  increment raises it, when the \<open>set\<close> of an idle reset raises it, and when the
  \<open>decr\<close> of a rejection raises it (after a busy bucket or after an idle reset), so
  that such a request is admitted and not rejected. \<open>MemcacheConnectionError\<close> never
  leaves \<open>_get_sleep_time\<close>. In particular, when every increment fails (on all the
  states \<open>S\<close> the failing client can be in), every request is passed to the
  application and the clock does not move, whatever rates are configured.
\<close>

theorem store_unavailable_fail_open:
  "(memcache_client w = Some m \<and> max_rate \<noteq> 0
      \<and> incr cl key (py_round (of_int (clock_accuracy c) / max_rate)) m
            = (Inl MemcacheConnectionError, m')
      \<longrightarrow> get_sleep_time cl c key max_rate w
            = (Inr 0, LOG (Error_exn MemcacheConnectionError) (w\<lparr>memcache_client := Some m'\<rparr>)))
   \<and> (memcache_client w = Some m \<and> max_rate \<noteq> 0
      \<and> now_m = py_round (time_ticker w * of_int (clock_accuracy c))
      \<and> time_per_request_m = py_round (of_int (clock_accuracy c) / max_rate)
      \<and> incr cl key time_per_request_m m = (Inr running_time_m, m_incr)
      \<and> now_m - running_time_m > rate_buffer_seconds c * clock_accuracy c
      \<and> set' cl key (now_m + time_per_request_m) m_incr = (Inl MemcacheConnectionError, m_set)
      \<longrightarrow> get_sleep_time cl c key max_rate w
            = (Inr 0, LOG (Error_exn MemcacheConnectionError) (w\<lparr>memcache_client := Some m_set\<rparr>)))
   \<and> (memcache_client w = Some m \<and> max_rate \<noteq> 0
      \<and> now_m = py_round (time_ticker w * of_int (clock_accuracy c))
      \<and> time_per_request_m = py_round (of_int (clock_accuracy c) / max_rate)
      \<and> incr cl key time_per_request_m m = (Inr running_time_m, m_incr)
      \<and> (if now_m - running_time_m > rate_buffer_seconds c * clock_accuracy c
          then set' cl key (now_m + time_per_request_m) m_incr = (Inr b, m_mid)
               \<and> need_to_sleep_m = 0
          else m_mid = m_incr
               \<and> need_to_sleep_m = max (running_time_m - now_m - time_per_request_m) 0)
      \<and> max_sleep_time_seconds c * of_int (clock_accuracy c) - of_int need_to_sleep_m
            \<le> of_int (clock_accuracy c) * (1 / 100)
      \<and> decr cl key time_per_request_m m_mid = (Inl MemcacheConnectionError, m_decr)
      \<longrightarrow> get_sleep_time cl c key max_rate w
            = (Inr 0, LOG (Error_exn MemcacheConnectionError) (w\<lparr>memcache_client := Some m_decr\<rparr>)))
   \<and> fst (get_sleep_time cl c key max_rate w) \<noteq> Inl MemcacheConnectionError
   \<and> ((\<forall>s\<in>S. \<forall>k d. fst (incr cl k d s) = Inl MemcacheConnectionError \<and> snd (incr cl k d s) \<in> S)
        \<and> m \<in> S
        \<and> (memcache_client w = Some m \<or> memcache_client w = None \<and> glance_cache req = Some m)
      \<longrightarrow> fst (call cl c req w) = Inr App_result
          \<and> time_ticker (snd (call cl c req w)) = time_ticker w)"
proof (intro conjI impI)
  assume "memcache_client w = Some m \<and> max_rate \<noteq> 0
      \<and> incr cl key (py_round (of_int (clock_accuracy c) / max_rate)) m
            = (Inl MemcacheConnectionError, m')"
  then show "get_sleep_time cl c key max_rate w
            = (Inr 0, LOG (Error_exn MemcacheConnectionError) (w\<lparr>memcache_client := Some m'\<rparr>))"
    by (simp add: incr_error_admits)
next
  assume a: "memcache_client w = Some m \<and> max_rate \<noteq> 0
      \<and> now_m = py_round (time_ticker w * of_int (clock_accuracy c))
      \<and> time_per_request_m = py_round (of_int (clock_accuracy c) / max_rate)
      \<and> incr cl key time_per_request_m m = (Inr running_time_m, m_incr)
      \<and> now_m - running_time_m > rate_buffer_seconds c * clock_accuracy c
      \<and> set' cl key (now_m + time_per_request_m) m_incr = (Inl MemcacheConnectionError, m_set)"
  show "get_sleep_time cl c key max_rate w
            = (Inr 0, LOG (Error_exn MemcacheConnectionError) (w\<lparr>memcache_client := Some m_set\<rparr>))"
    using a by (elim conjE) (rule set_error_admits, assumption+)
next
  assume a: "memcache_client w = Some m \<and> max_rate \<noteq> 0
      \<and> now_m = py_round (time_ticker w * of_int (clock_accuracy c))
      \<and> time_per_request_m = py_round (of_int (clock_accuracy c) / max_rate)
      \<and> incr cl key time_per_request_m m = (Inr running_time_m, m_incr)
      \<and> (if now_m - running_time_m > rate_buffer_seconds c * clock_accuracy c
          then set' cl key (now_m + time_per_request_m) m_incr = (Inr b, m_mid)
               \<and> need_to_sleep_m = 0
          else m_mid = m_incr
               \<and> need_to_sleep_m = max (running_time_m - now_m - time_per_request_m) 0)
      \<and> max_sleep_time_seconds c * of_int (clock_accuracy c) - of_int need_to_sleep_m
            \<le> of_int (clock_accuracy c) * (1 / 100)
      \<and> decr cl key time_per_request_m m_mid = (Inl MemcacheConnectionError, m_decr)"
  show "get_sleep_time cl c key max_rate w
            = (Inr 0, LOG (Error_exn MemcacheConnectionError) (w\<lparr>memcache_client := Some m_decr\<rparr>))"
    using a by (elim conjE) (rule decr_error_admits, assumption+)
next
  show "fst (get_sleep_time cl c key max_rate w) \<noteq> Inl MemcacheConnectionError"
    by (rule no_connection_error_escapes)
next
  assume a: "(\<forall>s\<in>S. \<forall>k d. fst (incr cl k d s) = Inl MemcacheConnectionError \<and> snd (incr cl k d s) \<in> S)
        \<and> m \<in> S
        \<and> (memcache_client w = Some m \<or> memcache_client w = None \<and> glance_cache req = Some m)"
  then have closed: "\<forall>s\<in>S. \<forall>k d. fst (incr cl k d s) = Inl MemcacheConnectionError \<and> snd (incr cl k d s) \<in> S"
    and m: "m \<in> S"
    and client: "memcache_client w = Some m \<or> memcache_client w = None \<and> glance_cache req = Some m"
    by simp_all
  from call_all_errors [OF closed client m]
  show "fst (call cl c req w) = Inr App_result"
    and "time_ticker (snd (call cl c req w)) = time_ticker w"
    by simp_all
qed

text \<open>
  Five runs. The restarting memcache of the unit tests (\<open>error_on_incr\<close>, account rate
  2): the bucket check returns 0, and a PUT request reaches the application with the clock
  still at 0. A connection lost before the \<open>set\<close> of an idle reset (rate 1, the bucket
  at 50000, the clock at 100 s): 0 is returned and the bucket stays at the 51000 of the
  increment. A connection lost before the \<open>decr\<close> of a rejection, for a busy bucket
  (ceiling 1 s, the bucket at 3000, the clock at 0) and after an idle reset (ceiling 0 s):
  0 is returned instead of the rejection, and the bucket keeps its 4000, or its 101000.
\<close>

theorem store_unavailable_fail_open_witness:
  "get_sleep_time FakeMemcache_ops (default_conf\<lparr>account_ratelimit := 2\<rparr>) ''ratelimit/tok'' 2
     \<lparr>memcache_client = Some (FakeMemcache_init\<lparr>error_on_incr := True\<rparr>),
      time_ticker = 0, log = []\<rparr>
     = (Inr 0,
        \<lparr>memcache_client = Some (FakeMemcache_init\<lparr>error_on_incr := True\<rparr>),
         time_ticker = 0, log = [Error_exn MemcacheConnectionError]\<rparr>)
   \<and> fst (call FakeMemcache_ops (default_conf\<lparr>account_ratelimit := 2\<rparr>)
            \<lparr>req_method = ''PUT'', x_auth_token = Some ''tok'',
             glance_cache = Some (FakeMemcache_init\<lparr>error_on_incr := True\<rparr>),
             matched_action = None\<rparr>
            \<lparr>memcache_client = Some (FakeMemcache_init\<lparr>error_on_incr := True\<rparr>),
             time_ticker = 0, log = []\<rparr>)
     = Inr App_result
   \<and> time_ticker (snd (call FakeMemcache_ops (default_conf\<lparr>account_ratelimit := 2\<rparr>)
            \<lparr>req_method = ''PUT'', x_auth_token = Some ''tok'',
             glance_cache = Some (FakeMemcache_init\<lparr>error_on_incr := True\<rparr>),
             matched_action = None\<rparr>
            \<lparr>memcache_client = Some (FakeMemcache_init\<lparr>error_on_incr := True\<rparr>),
             time_ticker = 0, log = []\<rparr>))
     = 0
   \<and> get_sleep_time FakeMemcache_set_lost_ops (default_conf\<lparr>account_ratelimit := 1\<rparr>)
       ''ratelimit/tok'' 1
       \<lparr>memcache_client = Some (FakeMemcache_init\<lparr>store := [''ratelimit/tok'' \<mapsto> 50000]\<rparr>),
        time_ticker = 100, log = []\<rparr>
     = (Inr 0,
        \<lparr>memcache_client = Some (FakeMemcache_init\<lparr>store := [''ratelimit/tok'' \<mapsto> 51000]\<rparr>),
         time_ticker = 100, log = [Error_exn MemcacheConnectionError]\<rparr>)
   \<and> get_sleep_time FakeMemcache_decr_lost_ops
       (default_conf\<lparr>account_ratelimit := 1, max_sleep_time_seconds := 1\<rparr>) ''ratelimit/tok'' 1
       \<lparr>memcache_client = Some (FakeMemcache_init\<lparr>store := [''ratelimit/tok'' \<mapsto> 3000]\<rparr>),
        time_ticker = 0, log = []\<rparr>
     = (Inr 0,
        \<lparr>memcache_client = Some (FakeMemcache_init\<lparr>store := [''ratelimit/tok'' \<mapsto> 4000]\<rparr>),
         time_ticker = 0, log = [Error_exn MemcacheConnectionError]\<rparr>)
   \<and> get_sleep_time FakeMemcache_decr_lost_ops
       (default_conf\<lparr>account_ratelimit := 1, max_sleep_time_seconds := 0\<rparr>) ''ratelimit/tok'' 1
       \<lparr>memcache_client = Some (FakeMemcache_init\<lparr>store := [''ratelimit/tok'' \<mapsto> 50000]\<rparr>),
        time_ticker = 100, log = []\<rparr>
     = (Inr 0,
        \<lparr>memcache_client = Some (FakeMemcache_init\<lparr>store := [''ratelimit/tok'' \<mapsto> 101000]\<rparr>),
         time_ticker = 100, log = [Error_exn MemcacheConnectionError]\<rparr>)"
proof -
  let ?key = "''ratelimit/tok''"
  let ?ca = "default_conf\<lparr>account_ratelimit := 2\<rparr>"
  let ?ma = "FakeMemcache_init\<lparr>error_on_incr := True\<rparr>"
  let ?wa = "\<lparr>memcache_client = Some ?ma, time_ticker = 0, log = []\<rparr>"
  let ?req = "\<lparr>req_method = ''PUT'', x_auth_token = Some ''tok'', glance_cache = Some ?ma,
               matched_action = None\<rparr>"
  let ?S = "{s. error_on_incr s}"
  have ha: "memcache_client ?wa = Some ?ma \<and> (2::rat) \<noteq> 0
      \<and> incr FakeMemcache_ops ?key (py_round (of_int (clock_accuracy ?ca) / 2)) ?ma
            = (Inl MemcacheConnectionError, ?ma)"
    by (simp add: FakeMemcache_ops_def fake_incr_def FakeMemcache_init_def)
  have he: "(\<forall>s\<in>?S. \<forall>k d.
               fst (incr FakeMemcache_ops k d s) = Inl MemcacheConnectionError
               \<and> snd (incr FakeMemcache_ops k d s) \<in> ?S)
        \<and> ?ma \<in> ?S
        \<and> (memcache_client ?wa = Some ?ma
            \<or> memcache_client ?wa = None \<and> glance_cache ?req = Some ?ma)"
    by (simp add: FakeMemcache_ops_def fake_incr_def FakeMemcache_init_def)
  from store_unavailable_fail_open [where cl = FakeMemcache_ops and c = ?ca and w = ?wa
      and m = ?ma and m' = ?ma and max_rate = 2 and key = ?key and req = ?req and S = ?S] ha he
  have a: "get_sleep_time FakeMemcache_ops ?ca ?key 2 ?wa
             = (Inr 0, LOG (Error_exn MemcacheConnectionError) (?wa\<lparr>memcache_client := Some ?ma\<rparr>))"
    and e: "fst (call FakeMemcache_ops ?ca ?req ?wa) = Inr App_result"
           "time_ticker (snd (call FakeMemcache_ops ?ca ?req ?wa)) = time_ticker ?wa"
    by blast+

  let ?cb = "default_conf\<lparr>account_ratelimit := 1\<rparr>"
  let ?mb = "FakeMemcache_init\<lparr>store := [?key \<mapsto> 50000]\<rparr>"
  let ?mb_incr = "FakeMemcache_init\<lparr>store := [?key \<mapsto> 51000]\<rparr>"
  let ?mb_set = "FakeMemcache_init\<lparr>store := [?key \<mapsto> 101000]\<rparr>"
  let ?wb = "\<lparr>memcache_client = Some ?mb, time_ticker = 100, log = []\<rparr>"
  have hb: "memcache_client ?wb = Some ?mb \<and> (1::rat) \<noteq> 0
      \<and> (100000::int) = py_round (time_ticker ?wb * of_int (clock_accuracy ?cb))
      \<and> (1000::int) = py_round (of_int (clock_accuracy ?cb) / 1)
      \<and> incr FakeMemcache_set_lost_ops ?key 1000 ?mb = (Inr 51000, ?mb_incr)
      \<and> 100000 - 51000 > rate_buffer_seconds ?cb * clock_accuracy ?cb
      \<and> set' FakeMemcache_set_lost_ops ?key (100000 + 1000) ?mb_incr
            = (Inl MemcacheConnectionError, ?mb_incr)"
    by (simp add: eval_defs)
  from store_unavailable_fail_open [where cl = FakeMemcache_set_lost_ops and c = ?cb and w = ?wb
      and m = ?mb and max_rate = 1 and key = ?key and now_m = 100000
      and time_per_request_m = 1000 and running_time_m = 51000 and m_incr = ?mb_incr
      and m_set = ?mb_incr] hb
  have b: "get_sleep_time FakeMemcache_set_lost_ops ?cb ?key 1 ?wb
             = (Inr 0, LOG (Error_exn MemcacheConnectionError)
                         (?wb\<lparr>memcache_client := Some ?mb_incr\<rparr>))"
    by blast

  let ?cc = "default_conf\<lparr>account_ratelimit := 1, max_sleep_time_seconds := 1\<rparr>"
  let ?mc = "FakeMemcache_init\<lparr>store := [?key \<mapsto> 3000]\<rparr>"
  let ?mc_incr = "FakeMemcache_init\<lparr>store := [?key \<mapsto> 4000]\<rparr>"
  let ?wc = "\<lparr>memcache_client = Some ?mc, time_ticker = 0, log = []\<rparr>"
  have hc: "memcache_client ?wc = Some ?mc \<and> (1::rat) \<noteq> 0
      \<and> (0::int) = py_round (time_ticker ?wc * of_int (clock_accuracy ?cc))
      \<and> (1000::int) = py_round (of_int (clock_accuracy ?cc) / 1)
      \<and> incr FakeMemcache_decr_lost_ops ?key 1000 ?mc = (Inr 4000, ?mc_incr)
      \<and> (if 0 - 4000 > rate_buffer_seconds ?cc * clock_accuracy ?cc
          then set' FakeMemcache_decr_lost_ops ?key (0 + 1000) ?mc_incr = (Inr True, ?mc_incr)
               \<and> (3000::int) = 0
          else ?mc_incr = ?mc_incr \<and> (3000::int) = max (4000 - 0 - 1000) 0)
      \<and> max_sleep_time_seconds ?cc * of_int (clock_accuracy ?cc) - of_int 3000
            \<le> of_int (clock_accuracy ?cc) * (1 / 100)
      \<and> decr FakeMemcache_decr_lost_ops ?key 1000 ?mc_incr
            = (Inl MemcacheConnectionError, ?mc_incr)"
    by (simp add: eval_defs)
  from store_unavailable_fail_open [where cl = FakeMemcache_decr_lost_ops and c = ?cc and w = ?wc
      and m = ?mc and max_rate = 1 and key = ?key and now_m = 0
      and time_per_request_m = 1000 and running_time_m = 4000 and m_incr = ?mc_incr
      and m_mid = ?mc_incr and b = True and need_to_sleep_m = 3000 and m_decr = ?mc_incr] hc
  have c: "get_sleep_time FakeMemcache_decr_lost_ops ?cc ?key 1 ?wc
             = (Inr 0, LOG (Error_exn MemcacheConnectionError)
                         (?wc\<lparr>memcache_client := Some ?mc_incr\<rparr>))"
    by blast

  let ?cd = "default_conf\<lparr>account_ratelimit := 1, max_sleep_time_seconds := 0\<rparr>"
  have hd: "memcache_client ?wb = Some ?mb \<and> (1::rat) \<noteq> 0
      \<and> (100000::int) = py_round (time_ticker ?wb * of_int (clock_accuracy ?cd))
      \<and> (1000::int) = py_round (of_int (clock_accuracy ?cd) / 1)
      \<and> incr FakeMemcache_decr_lost_ops ?key 1000 ?mb = (Inr 51000, ?mb_incr)
      \<and> (if 100000 - 51000 > rate_buffer_seconds ?cd * clock_accuracy ?cd
          then set' FakeMemcache_decr_lost_ops ?key (100000 + 1000) ?mb_incr = (Inr True, ?mb_set)
               \<and> (0::int) = 0
          else ?mb_set = ?mb_incr \<and> (0::int) = max (51000 - 100000 - 1000) 0)
      \<and> max_sleep_time_seconds ?cd * of_int (clock_accuracy ?cd) - of_int 0
            \<le> of_int (clock_accuracy ?cd) * (1 / 100)
      \<and> decr FakeMemcache_decr_lost_ops ?key 1000 ?mb_set
            = (Inl MemcacheConnectionError, ?mb_set)"
    by (simp add: eval_defs)
  from store_unavailable_fail_open [where cl = FakeMemcache_decr_lost_ops and c = ?cd and w = ?wb
      and m = ?mb and max_rate = 1 and key = ?key and now_m = 100000
      and time_per_request_m = 1000 and running_time_m = 51000 and m_incr = ?mb_incr
      and m_mid = ?mb_set and b = True and need_to_sleep_m = 0 and m_decr = ?mb_set] hd
  have d: "get_sleep_time FakeMemcache_decr_lost_ops ?cd ?key 1 ?wb
             = (Inr 0, LOG (Error_exn MemcacheConnectionError)
                         (?wb\<lparr>memcache_client := Some ?mb_set\<rparr>))"
    by blast

  from a b c d e show ?thesis by (simp add: LOG_def)
qed

section \<open>Idle reset\<close>

text \<open>
  C6. When the value the increment returned satisfies
  \<open>now - runningTime > rate_buffer_seconds * clock_accuracy\<close>, \<open>_get_sleep_time\<close>
  calls \<open>set\<close> on the bucket with \<open>now + timePerRequest\<close> and computes a delay of zero:
  it returns 0 with the client in the state \<open>set\<close> left, whatever the bucket held before.
  (Only when the ceiling itself is within the 1% tolerance of zero is that zero delay
  rejected, as any delay would be; the seconds the rejection carries are 0 as well.)
\<close>

theorem idle_reset:
  assumes client: "memcache_client w = Some m"
    and rate: "max_rate \<noteq> 0"
    and now: "now_m = py_round (time_ticker w * of_int (clock_accuracy c))"
    and tpr: "time_per_request_m = py_round (of_int (clock_accuracy c) / max_rate)"
    and incr: "incr cl key time_per_request_m m = (Inr running_time_m, m_incr)"
    and idle: "now_m - running_time_m > rate_buffer_seconds c * clock_accuracy c"
    and set: "set' cl key (now_m + time_per_request_m) m_incr = (Inr b, m_set)"
  shows "(\<not> max_sleep_time_seconds c * of_int (clock_accuracy c) \<le> of_int (clock_accuracy c) * (1 / 100)
            \<longrightarrow> get_sleep_time cl c key max_rate w = (Inr 0, w\<lparr>memcache_client := Some m_set\<rparr>))
       \<and> (max_sleep_time_seconds c * of_int (clock_accuracy c) \<le> of_int (clock_accuracy c) * (1 / 100)
            \<and> clock_accuracy c \<noteq> 0 \<and> decr cl key time_per_request_m m_set = (Inr x, m_decr)
            \<longrightarrow> get_sleep_time cl c key max_rate w
                  = (Inl (MaxSleepTimeHitError 0), w\<lparr>memcache_client := Some m_decr\<rparr>))"
proof (intro conjI impI)
  assume a: "\<not> max_sleep_time_seconds c * of_int (clock_accuracy c) \<le> of_int (clock_accuracy c) * (1 / 100)"
  then have nz: "clock_accuracy c \<noteq> 0" by auto
  have "get_sleep_time_try cl c key max_rate w = (Inr 0, w\<lparr>memcache_client := Some m_set\<rparr>)"
    using rate client incr idle set a nz
    unfolding get_sleep_time_try_def now [symmetric] tpr [symmetric] Let_def
    by simp
  then show "get_sleep_time cl c key max_rate w = (Inr 0, w\<lparr>memcache_client := Some m_set\<rparr>)"
    by (simp add: get_sleep_time_def)
next
  assume a: "max_sleep_time_seconds c * of_int (clock_accuracy c) \<le> of_int (clock_accuracy c) * (1 / 100)
            \<and> clock_accuracy c \<noteq> 0 \<and> decr cl key time_per_request_m m_set = (Inr x, m_decr)"
  have "get_sleep_time_try cl c key max_rate w
          = (Inl (MaxSleepTimeHitError 0), w\<lparr>memcache_client := Some m_decr\<rparr>)"
    using rate client incr idle set a
    unfolding get_sleep_time_try_def now [symmetric] tpr [symmetric] Let_def
    by simp
  then show "get_sleep_time cl c key max_rate w
               = (Inl (MaxSleepTimeHitError 0), w\<lparr>memcache_client := Some m_decr\<rparr>)"
    by (simp add: get_sleep_time_def)
qed

text \<open>
  Rate 1, the clock at 100 s, a bucket left at 50000 (a debt of 50 s of virtual time made
  long ago): the increment returns 51000, more than 5 s behind the clock, so the bucket is
  set to 101000 and the delay is 0. With a ceiling of 0 s the same request is rejected,
  carrying 0 seconds.
\<close>

theorem idle_reset_witness:
  "get_sleep_time FakeMemcache_ops (default_conf\<lparr>account_ratelimit := 1\<rparr>) ''ratelimit/tok'' 1
     \<lparr>memcache_client = Some (FakeMemcache_init\<lparr>store := [''ratelimit/tok'' \<mapsto> 50000]\<rparr>),
      time_ticker = 100, log = []\<rparr>
     = (Inr 0,
        \<lparr>memcache_client = Some (FakeMemcache_init\<lparr>store := [''ratelimit/tok'' \<mapsto> 101000]\<rparr>),
         time_ticker = 100, log = []\<rparr>)
   \<and> get_sleep_time FakeMemcache_ops
       (default_conf\<lparr>account_ratelimit := 1, max_sleep_time_seconds := 0\<rparr>) ''ratelimit/tok'' 1
       \<lparr>memcache_client = Some (FakeMemcache_init\<lparr>store := [''ratelimit/tok'' \<mapsto> 50000]\<rparr>),
        time_ticker = 100, log = []\<rparr>
     = (Inl (MaxSleepTimeHitError 0),
        \<lparr>memcache_client = Some (FakeMemcache_init\<lparr>store := [''ratelimit/tok'' \<mapsto> 100000]\<rparr>),
         time_ticker = 100, log = []\<rparr>)"
proof -
  let ?c = "default_conf\<lparr>account_ratelimit := 1\<rparr>"
  let ?cz = "default_conf\<lparr>account_ratelimit := 1, max_sleep_time_seconds := 0\<rparr>"
  let ?m = "FakeMemcache_init\<lparr>store := [''ratelimit/tok'' \<mapsto> 50000]\<rparr>"
  let ?m1 = "FakeMemcache_init\<lparr>store := [''ratelimit/tok'' \<mapsto> 51000]\<rparr>"
  let ?m2 = "FakeMemcache_init\<lparr>store := [''ratelimit/tok'' \<mapsto> 101000]\<rparr>"
  let ?m3 = "FakeMemcache_init\<lparr>store := [''ratelimit/tok'' \<mapsto> 100000]\<rparr>"
  let ?w = "\<lparr>memcache_client = Some ?m, time_ticker = 100, log = []\<rparr>"
  have a: "(\<not> max_sleep_time_seconds ?c * of_int (clock_accuracy ?c)
               \<le> of_int (clock_accuracy ?c) * (1 / 100)
            \<longrightarrow> get_sleep_time FakeMemcache_ops ?c ''ratelimit/tok'' 1 ?w
                  = (Inr 0, ?w\<lparr>memcache_client := Some ?m2\<rparr>))
       \<and> (max_sleep_time_seconds ?c * of_int (clock_accuracy ?c)
               \<le> of_int (clock_accuracy ?c) * (1 / 100)
            \<and> clock_accuracy ?c \<noteq> 0 \<and> decr FakeMemcache_ops ''ratelimit/tok'' 1000 ?m2 = (Inr 100000, ?m3)
            \<longrightarrow> get_sleep_time FakeMemcache_ops ?c ''ratelimit/tok'' 1 ?w
                  = (Inl (MaxSleepTimeHitError 0), ?w\<lparr>memcache_client := Some ?m3\<rparr>))"
    by (rule idle_reset [where m = ?m and now_m = 100000 and running_time_m = 51000
          and m_incr = ?m1 and b = True])
       (simp_all add: eval_defs)
  have b: "(\<not> max_sleep_time_seconds ?cz * of_int (clock_accuracy ?cz)
               \<le> of_int (clock_accuracy ?cz) * (1 / 100)
            \<longrightarrow> get_sleep_time FakeMemcache_ops ?cz ''ratelimit/tok'' 1 ?w
                  = (Inr 0, ?w\<lparr>memcache_client := Some ?m2\<rparr>))
       \<and> (max_sleep_time_seconds ?cz * of_int (clock_accuracy ?cz)
               \<le> of_int (clock_accuracy ?cz) * (1 / 100)
            \<and> clock_accuracy ?cz \<noteq> 0 \<and> decr FakeMemcache_ops ''ratelimit/tok'' 1000 ?m2 = (Inr 100000, ?m3)
            \<longrightarrow> get_sleep_time FakeMemcache_ops ?cz ''ratelimit/tok'' 1 ?w
                  = (Inl (MaxSleepTimeHitError 0), ?w\<lparr>memcache_client := Some ?m3\<rparr>))"
    by (rule idle_reset [where m = ?m and now_m = 100000 and running_time_m = 51000
          and m_incr = ?m1 and b = True])
       (simp_all add: eval_defs)
  have d: "decr FakeMemcache_ops ''ratelimit/tok'' 1000 ?m2 = (Inr 100000, ?m3)"
    by (simp add: eval_defs)
  have na: "\<not> max_sleep_time_seconds ?c * of_int (clock_accuracy ?c)
               \<le> of_int (clock_accuracy ?c) * (1 / 100)"
    by (simp add: default_conf_def)
  have nb: "max_sleep_time_seconds ?cz * of_int (clock_accuracy ?cz)
               \<le> of_int (clock_accuracy ?cz) * (1 / 100) \<and> clock_accuracy ?cz \<noteq> 0"
    by (simp add: default_conf_def)
  from a na have "get_sleep_time FakeMemcache_ops ?c ''ratelimit/tok'' 1 ?w
                  = (Inr 0, ?w\<lparr>memcache_client := Some ?m2\<rparr>)"
    by blast
  moreover from b nb d have "get_sleep_time FakeMemcache_ops ?cz ''ratelimit/tok'' 1 ?w
                  = (Inl (MaxSleepTimeHitError 0), ?w\<lparr>memcache_client := Some ?m3\<rparr>)"
    by blast
  ultimately show ?thesis by simp
qed


section \<open>Unknown actions\<close>

text \<open>
  C7. For every action outside \<open>image_list\<close>, \<open>image_download\<close>,
  \<open>image_register\<close>, \<open>image_upload\<close>, \<open>image_update\<close> (no action included),
  \<open>_get_limit_for_action\<close> raises \<open>ValueError\<close>;
  \<open>get_ratelimitable_key_tuples\<close> logs it and takes the limit as 0, so the list it
  returns holds no bucket for the action: it is the account bucket alone, or empty.
\<close>

theorem unknown_action_no_bucket:
  assumes "action \<notin> Some ` {''image_list'', ''image_download'', ''image_register'',
                               ''image_upload'', ''image_update''}"
  shows "get_limit_for_action c action = Inl (ValueError action)
       \<and> get_ratelimitable_key_tuples c req auth_tok action w
           = ((if req_method req \<in> set limitable_methods \<and> account_ratelimit c \<noteq> 0
               then [(''ratelimit/'' @ auth_tok, account_ratelimit c)] else []),
              LOG (Error_exn (ValueError action)) w)"
proof -
  have l: "get_limit_for_action c action = Inl (ValueError action)"
    using assms by (auto simp: get_limit_for_action_def)
  show ?thesis
    by (simp add: l get_ratelimitable_key_tuples_def Let_def)
qed

text \<open>
  A request that the mapper does not match (no action), and the action \<open>foobar\<close> of the
  unit tests, with every limit of the configuration set to 5.
\<close>

theorem unknown_action_no_bucket_witness:
  "get_ratelimitable_key_tuples
     (default_conf\<lparr>account_ratelimit := 10, image_list := 5, image_download := 5,
                    image_register := 5, image_upload := 5, image_update := 5\<rparr>)
     \<lparr>req_method = ''GET'', x_auth_token = Some ''tok'', glance_cache = None, matched_action = None\<rparr>
     ''tok'' None
     \<lparr>memcache_client = Some FakeMemcache_init, time_ticker = 0, log = []\<rparr>
     = ([(''ratelimit/tok'', 10)],
        \<lparr>memcache_client = Some FakeMemcache_init, time_ticker = 0,
         log = [Error_exn (ValueError None)]\<rparr>)
   \<and> get_limit_for_action
       (default_conf\<lparr>account_ratelimit := 10, image_list := 5, image_download := 5,
                      image_register := 5, image_upload := 5, image_update := 5\<rparr>)
       (Some ''foobar'')
     = Inl (ValueError (Some ''foobar''))"
proof -
  let ?c = "default_conf\<lparr>account_ratelimit := 10, image_list := 5, image_download := 5,
                    image_register := 5, image_upload := 5, image_update := 5\<rparr>"
  let ?req = "\<lparr>req_method = ''GET'', x_auth_token = Some ''tok'', glance_cache = None,
               matched_action = None\<rparr> :: FakeMemcache request"
  let ?w = "\<lparr>memcache_client = Some FakeMemcache_init, time_ticker = 0, log = []\<rparr>"
  have n: "None \<notin> Some ` {''image_list'', ''image_download'', ''image_register'',
                               ''image_upload'', ''image_update''}"
    by simp
  have f: "Some ''foobar'' \<notin> Some ` {''image_list'', ''image_download'', ''image_register'',
                               ''image_upload'', ''image_update''}"
    by simp
  from unknown_action_no_bucket [OF n, of ?c ?req "''tok''" ?w]
       unknown_action_no_bucket [OF f, of ?c ?req "''tok''" ?w]
  show ?thesis by (simp add: limitable_methods_def default_conf_def LOG_def)
qed

section \<open>Requests without a caller identity\<close>

text \<open>
  C8. For a request without the header \<open>x-auth-token\<close>, \<open>__call__\<close> passes the
  request to the application: the clock does not move, no bucket list is computed and
  the memcache client is not called (the result is the same for every client, and the
  world changes only by the client being attached and by the log).
\<close>

theorem no_token_bypass:
  assumes "x_auth_token req = None"
  shows "call cl c req w =
           (Inr App_result,
            (if memcache_client w \<noteq> None then LOG Info_no_token w
             else case glance_cache req of
                    Some m \<Rightarrow> LOG Info_no_token (w\<lparr>memcache_client := Some m\<rparr>)
                  | None \<Rightarrow> LOG Warning_no_memcache
                             (LOG (Error_not_in_env ''glance.cache'') (w\<lparr>memcache_client := None\<rparr>))))
       \<and> time_ticker (snd (call cl c req w)) = time_ticker w"
  using assms
  by (auto simp: call_def cache_from_env_def Let_def LOG_def split: option.splits)

text \<open>
  A GET of the image list without a token, on a bucket that would otherwise reject: the
  request goes through and the store is as it was.
\<close>

theorem no_token_bypass_witness:
  "call FakeMemcache_ops (default_conf\<lparr>account_ratelimit := 1\<rparr>)
     \<lparr>req_method = ''GET'', x_auth_token = None, glance_cache = None,
      matched_action = Some ''image_list''\<rparr>
     \<lparr>memcache_client = Some (FakeMemcache_init\<lparr>store := [''ratelimit/tok'' \<mapsto> 90000]\<rparr>),
      time_ticker = 0, log = []\<rparr>
   = (Inr App_result,
      \<lparr>memcache_client = Some (FakeMemcache_init\<lparr>store := [''ratelimit/tok'' \<mapsto> 90000]\<rparr>),
       time_ticker = 0, log = [Info_no_token]\<rparr>)"
proof -
  let ?req = "\<lparr>req_method = ''GET'', x_auth_token = None, glance_cache = None,
               matched_action = Some ''image_list''\<rparr> :: FakeMemcache request"
  have h: "x_auth_token ?req = None" by simp
  from no_token_bypass [OF h, of FakeMemcache_ops "default_conf\<lparr>account_ratelimit := 1\<rparr>"
      "\<lparr>memcache_client = Some (FakeMemcache_init\<lparr>store := [''ratelimit/tok'' \<mapsto> 90000]\<rparr>),
        time_ticker = 0, log = []\<rparr>"]
  show ?thesis by (simp add: LOG_def)
qed

section \<open>The logging threshold\<close>

lemma same_but_log_update: "same_but_log w w' \<Longrightarrow> w' = w\<lparr>log := log w'\<rparr>"
  by (simp add: same_but_log_def)

lemma same_but_log_LOG:
  "same_but_log w w' \<Longrightarrow> same_but_log (LOG r w) w'"
  "same_but_log w w' \<Longrightarrow> same_but_log w (LOG r w')"
  by (simp_all add: same_but_log_def LOG_def)

lemma same_but_log_sleep:
  "same_but_log w w' \<Longrightarrow> same_but_log (sleep d w) (sleep d w')"
  by (simp add: same_but_log_def sleep_def)

lemma get_sleep_time_try_log_conf:
  "get_sleep_time_try cl (c\<lparr>log_sleep_time_seconds := x\<rparr>) key max_rate (w\<lparr>log := l\<rparr>)
     = (fst (get_sleep_time_try cl c key max_rate w),
        (snd (get_sleep_time_try cl c key max_rate w))\<lparr>log := l\<rparr>)"
  unfolding get_sleep_time_try_def Let_def
  by (simp split: option.splits prod.splits sum.splits)

lemma get_sleep_time_log_update:
  "fst (get_sleep_time cl (c\<lparr>log_sleep_time_seconds := x\<rparr>) key max_rate (w\<lparr>log := l\<rparr>))
           = fst (get_sleep_time cl c key max_rate w)
       \<and> same_but_log (snd (get_sleep_time cl c key max_rate w))
           (snd (get_sleep_time cl (c\<lparr>log_sleep_time_seconds := x\<rparr>) key max_rate (w\<lparr>log := l\<rparr>)))"
  by (auto simp: get_sleep_time_def get_sleep_time_try_log_conf LOG_def same_but_log_def
           split: prod.splits sum.splits)

lemma get_sleep_time_log_conf:
  assumes "same_but_log w w'"
  shows "fst (get_sleep_time cl (c\<lparr>log_sleep_time_seconds := x\<rparr>) key max_rate w')
           = fst (get_sleep_time cl c key max_rate w)
       \<and> same_but_log (snd (get_sleep_time cl c key max_rate w))
           (snd (get_sleep_time cl (c\<lparr>log_sleep_time_seconds := x\<rparr>) key max_rate w'))"
proof -
  obtain l where w': "w' = w\<lparr>log := l\<rparr>"
    using same_but_log_update [OF assms] ..
  show ?thesis unfolding w' by (rule get_sleep_time_log_update)
qed

lemma loop_log_conf:
  assumes "same_but_log w w'"
  shows "fst (handle_ratelimit_loop cl (c\<lparr>log_sleep_time_seconds := x\<rparr>) limits w')
           = fst (handle_ratelimit_loop cl c limits w)
       \<and> same_but_log (snd (handle_ratelimit_loop cl c limits w))
           (snd (handle_ratelimit_loop cl (c\<lparr>log_sleep_time_seconds := x\<rparr>) limits w'))"
  using assms
proof (induction limits arbitrary: w w')
  case Nil
  then show ?case by simp
next
  case (Cons b limits)
  obtain key max_rate where b: "b = (key, max_rate)" by (cases b)
  obtain r w1 where g: "get_sleep_time cl c key max_rate w = (r, w1)"
    by (cases "get_sleep_time cl c key max_rate w")
  obtain r' w1' where g': "get_sleep_time cl (c\<lparr>log_sleep_time_seconds := x\<rparr>) key max_rate w' = (r', w1')"
    by (cases "get_sleep_time cl (c\<lparr>log_sleep_time_seconds := x\<rparr>) key max_rate w'")
  from get_sleep_time_log_conf [OF Cons.prems, where cl = cl and c = c and x = x and key = key and max_rate = max_rate] g g'
  have r: "r' = r" and s1: "same_but_log w1 w1'" by simp_all
  show ?case
  proof (cases r)
    case (Inl e)
    then show ?thesis
      using s1 by (cases e) (simp_all add: b g g' r same_but_log_LOG)
  next
    case (Inr d)
    let ?wa = "if log_sleep_time_seconds c \<noteq> 0 \<and> d > log_sleep_time_seconds c
               then LOG (Warning_sleep_log d key) w1 else w1"
    let ?wb = "if d > 0 then sleep d ?wa else ?wa"
    let ?wa' = "if x \<noteq> 0 \<and> d > x then LOG (Warning_sleep_log d key) w1' else w1'"
    let ?wb' = "if d > 0 then sleep d ?wa' else ?wa'"
    have "same_but_log ?wa ?wa'"
      using s1 by (simp add: same_but_log_LOG)
    then have "same_but_log ?wb ?wb'"
      by (simp add: same_but_log_sleep)
    from Cons.IH [OF this] show ?thesis
      by (simp add: b g g' r Inr Let_def)
  qed
qed

lemma limit_log_conf:
  "get_limit_for_action (c\<lparr>log_sleep_time_seconds := x\<rparr>) action = get_limit_for_action c action"
  by (simp add: get_limit_for_action_def)

lemma key_tuples_log_conf:
  "get_ratelimitable_key_tuples (c\<lparr>log_sleep_time_seconds := x\<rparr>) req auth_tok action w
     = get_ratelimitable_key_tuples c req auth_tok action w"
  by (simp add: get_ratelimitable_key_tuples_def limit_log_conf)

text \<open>
  C9. \<open>log_sleep_time_seconds\<close> decides only what is logged: two runs of
  \<open>handle_ratelimit\<close> on the same request and the same world, whose configurations
  differ only in \<open>log_sleep_time_seconds\<close>, return the same result (no response, the
  429 response, or the same exception), leave the memcache client in the same state and
  the clock at the same time.
\<close>

theorem log_threshold_observability_only:
  "fst (handle_ratelimit cl (c\<lparr>log_sleep_time_seconds := x\<rparr>) req auth_tok action w)
     = fst (handle_ratelimit cl c req auth_tok action w)
   \<and> memcache_client (snd (handle_ratelimit cl (c\<lparr>log_sleep_time_seconds := x\<rparr>) req auth_tok action w))
     = memcache_client (snd (handle_ratelimit cl c req auth_tok action w))
   \<and> time_ticker (snd (handle_ratelimit cl (c\<lparr>log_sleep_time_seconds := x\<rparr>) req auth_tok action w))
     = time_ticker (snd (handle_ratelimit cl c req auth_tok action w))"
proof (cases "memcache_client w")
  case None
  then show ?thesis by (simp add: handle_ratelimit_def)
next
  case (Some m)
  obtain limits w1 where k: "get_ratelimitable_key_tuples c req auth_tok action w = (limits, w1)"
    by (cases "get_ratelimitable_key_tuples c req auth_tok action w")
  have "same_but_log w1 w1" by (simp add: same_but_log_def)
  from loop_log_conf [OF this, where cl = cl and c = c and x = x and limits = limits] show ?thesis
    by (simp add: handle_ratelimit_def key_tuples_log_conf k Some same_but_log_def)
qed

text \<open>
  The bucket at 600 with rate 5 and the clock at 0.1 s asks for 0.5 s: with a threshold of
  0.00001 s, as with none, the request is admitted after the same sleep.
\<close>

theorem log_threshold_observability_only_witness:
  "fst (handle_ratelimit FakeMemcache_ops
          (default_conf\<lparr>account_ratelimit := 5, log_sleep_time_seconds := 1 / 100000\<rparr>)
          \<lparr>req_method = ''GET'', x_auth_token = Some ''tok'', glance_cache = None,
           matched_action = None\<rparr> ''tok'' None
          \<lparr>memcache_client = Some (FakeMemcache_init\<lparr>store := [''ratelimit/tok'' \<mapsto> 600]\<rparr>),
           time_ticker = 1 / 10, log = []\<rparr>)
     = Inr None
   \<and> time_ticker (snd (handle_ratelimit FakeMemcache_ops
          (default_conf\<lparr>account_ratelimit := 5, log_sleep_time_seconds := 1 / 100000\<rparr>)
          \<lparr>req_method = ''GET'', x_auth_token = Some ''tok'', glance_cache = None,
           matched_action = None\<rparr> ''tok'' None
          \<lparr>memcache_client = Some (FakeMemcache_init\<lparr>store := [''ratelimit/tok'' \<mapsto> 600]\<rparr>),
           time_ticker = 1 / 10, log = []\<rparr>))
     = 3 / 5"
proof -
  let ?c = "default_conf\<lparr>account_ratelimit := 5\<rparr>"
  let ?req = "\<lparr>req_method = ''GET'', x_auth_token = Some ''tok'', glance_cache = None,
               matched_action = None\<rparr> :: FakeMemcache request"
  let ?w = "\<lparr>memcache_client = Some (FakeMemcache_init\<lparr>store := [''ratelimit/tok'' \<mapsto> 600]\<rparr>),
           time_ticker = 1 / 10, log = []\<rparr>"
  have base: "fst (handle_ratelimit FakeMemcache_ops ?c ?req ''tok'' None ?w) = Inr None
    \<and> time_ticker (snd (handle_ratelimit FakeMemcache_ops ?c ?req ''tok'' None ?w)) = 3 / 5"
    by (simp add: eval_defs)
  from log_threshold_observability_only [where cl = FakeMemcache_ops and c = ?c
      and x = "1 / 100000" and req = ?req and auth_tok = "''tok''" and action = None and w = ?w]
       base
  show ?thesis by simp
qed

section \<open>Bounds on the delay\<close>

lemma get_sleep_time_try_returns:
  assumes "get_sleep_time_try cl c key max_rate w = (Inr d, w')"
  shows "\<exists>n::int. 0 \<le> n \<and> clock_accuracy c \<noteq> 0 \<and> d = of_int n / of_int (clock_accuracy c)
           \<and> \<not> max_sleep_time_seconds c * of_int (clock_accuracy c) - of_int n
                  \<le> of_int (clock_accuracy c) * (1 / 100)"
  using assms unfolding get_sleep_time_try_def Let_def
  by (auto split: if_splits option.splits prod.splits sum.splits)

text \<open>
  With a clock accuracy of -1000 and a ceiling of -100 s the ceiling test compares
  100000 - 7000 with -10 and admits: a bucket at 7000 (rate 1, the clock at 0) is
  decremented to 6000 and the call returns 7000 / -1000 = -7 seconds.
\<close>

theorem negative_delay_counterexample:
  "get_sleep_time FakeMemcache_ops
     (default_conf\<lparr>clock_accuracy := - 1000, max_sleep_time_seconds := - 100\<rparr>) ''ratelimit/tok'' 1
     \<lparr>memcache_client = Some (FakeMemcache_init\<lparr>store := [''ratelimit/tok'' \<mapsto> 7000]\<rparr>),
      time_ticker = 0, log = []\<rparr>
   = (Inr (- 7),
      \<lparr>memcache_client = Some (FakeMemcache_init\<lparr>store := [''ratelimit/tok'' \<mapsto> 6000]\<rparr>),
       time_ticker = 0, log = []\<rparr>)
   \<and> fst (get_sleep_time_try FakeMemcache_ops
     (default_conf\<lparr>clock_accuracy := - 1000, max_sleep_time_seconds := - 100\<rparr>) ''ratelimit/tok'' 1
     \<lparr>memcache_client = Some (FakeMemcache_init\<lparr>store := [''ratelimit/tok'' \<mapsto> 7000]\<rparr>),
      time_ticker = 0, log = []\<rparr>) \<noteq> Inl MemcacheConnectionError
   \<and> \<not> (0::rat) \<le> - 7"
  by (simp add: eval_defs)

text \<open>
  C10, amended. Whenever \<open>_get_sleep_time\<close> returns a delay \<open>d\<close> and the return is
  not the one of the handler for \<open>MemcacheConnectionError\<close>, the delay is
  \<open>need_to_sleep_m / clock_accuracy\<close> for the integer \<open>need_to_sleep_m \<ge> 0\<close> the call
  computed, and for that integer the ceiling test of the code,
  \<open>max_sleep_time_seconds * clock_accuracy - need_to_sleep_m \<le> clock_accuracy * 0.01\<close>,
  did not hold; with a positive clock accuracy, \<open>0 \<le> d\<close>. The bound is the one the code
  tests, on the integer wait: with the rounded products of floating point it does not
  carry over to \<open>d * clock_accuracy\<close> at a ceiling within rounding error of the wait.
\<close>

theorem delay_within_ceiling:
  assumes ret: "get_sleep_time cl c key max_rate w = (Inr d, w')"
    and no_store_error: "fst (get_sleep_time_try cl c key max_rate w) \<noteq> Inl MemcacheConnectionError"
  shows "(\<exists>need_to_sleep_m::int. 0 \<le> need_to_sleep_m
            \<and> d = of_int need_to_sleep_m / of_int (clock_accuracy c)
            \<and> \<not> max_sleep_time_seconds c * of_int (clock_accuracy c) - of_int need_to_sleep_m
                  \<le> of_int (clock_accuracy c) * (1 / 100))
       \<and> (0 < clock_accuracy c \<longrightarrow> 0 \<le> d)"
proof -
  from ret no_store_error have "get_sleep_time_try cl c key max_rate w = (Inr d, w')"
    by (auto simp: get_sleep_time_def split: prod.splits sum.splits if_splits)
  from get_sleep_time_try_returns [OF this] obtain n :: int where
    n: "0 \<le> n" "d = of_int n / of_int (clock_accuracy c)"
       "\<not> max_sleep_time_seconds c * of_int (clock_accuracy c) - of_int n
                  \<le> of_int (clock_accuracy c) * (1 / 100)"
    by blast
  have "0 < clock_accuracy c \<longrightarrow> 0 \<le> d"
    using n(1,2) by simp
  with n show ?thesis by blast
qed

text \<open>The delay of 0.5 s of the bucket at 600 is 500 units, under the ceiling of 60 s.\<close>

theorem delay_within_ceiling_witness:
  "(\<exists>need_to_sleep_m::int. 0 \<le> need_to_sleep_m
      \<and> (1 / 2 :: rat)
            = of_int need_to_sleep_m / of_int (clock_accuracy (default_conf\<lparr>account_ratelimit := 5\<rparr>))
      \<and> \<not> max_sleep_time_seconds (default_conf\<lparr>account_ratelimit := 5\<rparr>)
               * of_int (clock_accuracy (default_conf\<lparr>account_ratelimit := 5\<rparr>))
             - of_int need_to_sleep_m
            \<le> of_int (clock_accuracy (default_conf\<lparr>account_ratelimit := 5\<rparr>)) * (1 / 100))
   \<and> 0 < clock_accuracy (default_conf\<lparr>account_ratelimit := 5\<rparr>)
   \<and> (0::rat) \<le> 1 / 2"
proof -
  let ?c = "default_conf\<lparr>account_ratelimit := 5\<rparr>"
  let ?w = "\<lparr>memcache_client = Some (FakeMemcache_init\<lparr>store := [''ratelimit/tok'' \<mapsto> 600]\<rparr>),
           time_ticker = 1 / 10, log = []\<rparr>"
  let ?w' = "\<lparr>memcache_client = Some (FakeMemcache_init\<lparr>store := [''ratelimit/tok'' \<mapsto> 800]\<rparr>),
           time_ticker = 1 / 10, log = []\<rparr>"
  have ca: "0 < clock_accuracy ?c" by (simp add: default_conf_def)
  have ret: "get_sleep_time FakeMemcache_ops ?c ''ratelimit/tok'' 5 ?w = (Inr (1 / 2), ?w')"
    by (simp add: eval_defs)
  have ok: "fst (get_sleep_time_try FakeMemcache_ops ?c ''ratelimit/tok'' 5 ?w)
              \<noteq> Inl MemcacheConnectionError"
    by (simp add: eval_defs)
  from delay_within_ceiling [OF ret ok] ca show ?thesis by blast
qed

section \<open>Requests sent one after the other\<close>

text \<open>
  The configuration of the unit tests sets the account rate and nothing else, so every
  request of a limitable method has the account bucket as its only bucket.
\<close>

lemma single_bucket:
  assumes "req_method req \<in> set limitable_methods" "R \<noteq> 0"
  shows "fst (get_ratelimitable_key_tuples (default_conf\<lparr>account_ratelimit := R, log_sleep_time_seconds := l\<rparr>)
                req tok action w) = [(''ratelimit/'' @ tok, R)]"
proof -
  have "get_limit_for_action (default_conf\<lparr>account_ratelimit := R, log_sleep_time_seconds := l\<rparr>) action
          = Inr 0
      \<or> get_limit_for_action (default_conf\<lparr>account_ratelimit := R, log_sleep_time_seconds := l\<rparr>) action
          = Inl (ValueError action)"
    by (simp add: get_limit_for_action_def default_conf_def)
  then show ?thesis
    using assms by (auto simp: get_ratelimitable_key_tuples_def Let_def)
qed

lemma get_sleep_time_fake:
  assumes c: "c = default_conf\<lparr>account_ratelimit := R, log_sleep_time_seconds := l\<rparr>"
    and R: "R \<noteq> 0" and tpr: "tpr = py_round (1000 / R)" "0 < tpr" "tpr \<le> 500"
    and now: "now_m = py_round (time_ticker w * 1000)"
    and client: "memcache_client w = Some m" "\<not> error_on_incr m" "\<not> init_incr_return_neg m"
    and v: "v = (case store m key of None \<Rightarrow> 0 | Some x \<Rightarrow> x)" "0 \<le> v"
    and near: "v - now_m < 59000"
  shows "get_sleep_time FakeMemcache_ops c key R w =
           (if now_m - (v + tpr) > 5000
            then (Inr 0, w\<lparr>memcache_client := Some (m\<lparr>store := (store m)(key \<mapsto> now_m + tpr)\<rparr>)\<rparr>)
            else (Inr (of_int (max (v - now_m) 0) / 1000),
                  w\<lparr>memcache_client := Some (m\<lparr>store := (store m)(key \<mapsto> v + tpr)\<rparr>)\<rparr>))"
proof -
  have ca: "clock_accuracy c = 1000" "rate_buffer_seconds c = 5" "max_sleep_time_seconds c = 60"
    by (simp_all add: c default_conf_def)
  have i: "fake_incr key tpr m = (Inr (v + tpr), m\<lparr>store := (store m)(key \<mapsto> v + tpr)\<rparr>)"
    using client v tpr by (simp add: fake_incr_def Let_def)
  have m: "\<not> 59990 \<le> max (v - now_m) 0" using near by simp
  have "get_sleep_time_try FakeMemcache_ops c key R w =
           (if now_m - (v + tpr) > 5000
            then (Inr 0, w\<lparr>memcache_client := Some (m\<lparr>store := (store m)(key \<mapsto> now_m + tpr)\<rparr>)\<rparr>)
            else (Inr (of_int (max (v - now_m) 0) / 1000),
                  w\<lparr>memcache_client := Some (m\<lparr>store := (store m)(key \<mapsto> v + tpr)\<rparr>)\<rparr>))"
    using R client(1) m
    unfolding get_sleep_time_try_def ca Let_def
    by (simp add: now [symmetric] tpr(1) [symmetric] FakeMemcache_ops_def i fake_set_def)
  then show ?thesis by (simp add: get_sleep_time_def)
qed

lemma call_paced:
  assumes c: "c = default_conf\<lparr>account_ratelimit := R, log_sleep_time_seconds := l\<rparr>"
    and R: "R \<noteq> 0" and tpr: "tpr = py_round (1000 / R)" "0 < tpr" "tpr \<le> 500"
    and meth: "req_method req \<in> set limitable_methods"
    and tok: "x_auth_token req = Some tok"
    and key: "key = ''ratelimit/'' @ tok"
    and now0: "now0 = py_round (t0 * 1000)" "0 \<le> t0"
    and k: "1 \<le> k"
    and paced: "paced key now0 t0 tpr k w"
  shows "fst (call FakeMemcache_ops c req w) = Inr App_result
       \<and> paced key now0 t0 tpr (Suc k) (snd (call FakeMemcache_ops c req w))"
proof -
  from paced obtain m where m: "memcache_client w = Some m"
      "store m key = Some (now0 + int k * tpr)" "\<not> error_on_incr m" "\<not> init_incr_return_neg m"
    and t: "time_ticker w = t0 + of_nat (k - 1) * of_int tpr / 1000"
    by (auto simp: paced_def split: option.splits)
  let ?w0 = "case matched_action req of None \<Rightarrow> w
             | Some a \<Rightarrow> if a \<noteq> [] then LOG (Debug_action a) w else w"
  have w0: "memcache_client ?w0 = Some m" "time_ticker ?w0 = time_ticker w"
    using m(1) by (simp_all add: LOG_def split: option.splits)
  obtain limits w1 where kt: "get_ratelimitable_key_tuples c req tok (matched_action req) ?w0 = (limits, w1)"
    by (cases "get_ratelimitable_key_tuples c req tok (matched_action req) ?w0")
  have limits: "limits = [(key, R)]"
    using single_bucket [OF meth R, of l tok "matched_action req" ?w0] kt by (simp add: c key)
  have w1: "memcache_client w1 = Some m" "time_ticker w1 = time_ticker w"
    using key_tuples_world [of c req tok "matched_action req" ?w0] kt w0 by simp_all
  have "time_ticker w1 * 1000 = t0 * 1000 + of_int (int (k - 1) * tpr)"
    by (simp add: w1 t)
  moreover have "0 \<le> t0 * 1000" "0 \<le> int (k - 1) * tpr"
    using now0(2) tpr(2) by simp_all
  ultimately have now: "now0 + int (k - 1) * tpr = py_round (time_ticker w1 * 1000)"
    by (simp only: py_round_add_int now0(1))
  have "0 \<le> now0" using now0 by (simp add: py_round_nonneg)
  have v: "now0 + int k * tpr = (case store m key of None \<Rightarrow> 0 | Some x \<Rightarrow> x)"
    by (simp add: m)
  have kk: "int k * tpr = int (k - 1) * tpr + tpr"
    using k by (cases k) (simp_all add: algebra_simps)
  have g: "get_sleep_time FakeMemcache_ops c key R w1 =
            (Inr (of_int tpr / 1000),
             w1\<lparr>memcache_client := Some (m\<lparr>store := (store m)(key \<mapsto> now0 + int k * tpr + tpr)\<rparr>)\<rparr>)"
    using get_sleep_time_fake [OF c R tpr now w1(1) m(3,4) v] \<open>0 \<le> now0\<close> tpr(2,3) kk
    by simp
  let ?m' = "m\<lparr>store := (store m)(key \<mapsto> now0 + int k * tpr + tpr)\<rparr>"
  let ?d = "(of_int tpr :: rat) / 1000"
  let ?w2 = "w1\<lparr>memcache_client := Some ?m'\<rparr>"
  let ?w3 = "if log_sleep_time_seconds c \<noteq> 0 \<and> ?d > log_sleep_time_seconds c
             then LOG (Warning_sleep_log ?d key) ?w2 else ?w2"
  have d: "0 < ?d" using tpr(2) by simp
  have loop: "handle_ratelimit_loop FakeMemcache_ops c limits w1 = (Inr None, sleep ?d ?w3)"
    using d by (simp add: limits g Let_def)
  have call: "call FakeMemcache_ops c req w = (Inr App_result, sleep ?d ?w3)"
    using m(1) tok by (simp add: call_def Let_def handle_ratelimit_def w0 kt loop)
  have c4: "memcache_client (sleep ?d ?w3) = Some ?m'"
    by (simp add: sleep_def LOG_def)
  have "(of_nat (Suc k - 1) :: rat) = of_nat (k - 1) + 1"
    using k by (cases k) simp_all
  then have "t0 + of_nat (Suc k - 1) * of_int tpr / 1000
               = t0 + of_nat (k - 1) * of_int tpr / 1000 + ?d"
    by (simp only: distrib_right add_divide_distrib mult_1 add.assoc)
  moreover have "time_ticker (sleep ?d ?w3) = time_ticker w + ?d"
    by (simp add: sleep_def LOG_def w1)
  ultimately have t4: "time_ticker (sleep ?d ?w3) = t0 + of_nat (Suc k - 1) * of_int tpr / 1000"
    by (simp only: t)
  have s4: "store ?m' key = Some (now0 + int (Suc k) * tpr)"
    by (simp add: algebra_simps)
  have "paced key now0 t0 tpr (Suc k) (sleep ?d ?w3)"
    unfolding paced_def c4 t4 using s4 m(3,4) by simp
  then show ?thesis by (simp add: call)
qed


lemma call_first:
  assumes c: "c = default_conf\<lparr>account_ratelimit := R, log_sleep_time_seconds := l\<rparr>"
    and R: "R \<noteq> 0" and tpr: "tpr = py_round (1000 / R)" "0 < tpr" "tpr \<le> 500"
    and meth: "req_method req \<in> set limitable_methods"
    and tok: "x_auth_token req = Some tok"
    and cache: "glance_cache req = Some FakeMemcache_init"
    and key: "key = ''ratelimit/'' @ tok"
    and now0: "now0 = py_round (t0 * 1000)"
    and t0: "t0 = 0 \<or> 6 \<le> t0"
    and w: "memcache_client w = None" "time_ticker w = t0"
  shows "fst (call FakeMemcache_ops c req w) = Inr App_result
       \<and> paced key now0 t0 tpr 1 (snd (call FakeMemcache_ops c req w))"
proof -
  let ?m = FakeMemcache_init
  let ?wa = "w\<lparr>memcache_client := Some ?m\<rparr>"
  let ?w0 = "case matched_action req of None \<Rightarrow> ?wa
             | Some a \<Rightarrow> if a \<noteq> [] then LOG (Debug_action a) ?wa else ?wa"
  have w0: "memcache_client ?w0 = Some ?m" "time_ticker ?w0 = t0"
    using w(2) by (simp_all add: LOG_def split: option.splits)
  obtain limits w1 where kt: "get_ratelimitable_key_tuples c req tok (matched_action req) ?w0 = (limits, w1)"
    by (cases "get_ratelimitable_key_tuples c req tok (matched_action req) ?w0")
  have limits: "limits = [(key, R)]"
    using single_bucket [OF meth R, of l tok "matched_action req" ?w0] kt by (simp add: c key)
  have w1: "memcache_client w1 = Some ?m" "time_ticker w1 = t0"
    using key_tuples_world [of c req tok "matched_action req" ?w0] kt w0 by simp_all
  have now: "now0 = py_round (time_ticker w1 * 1000)"
    by (simp add: w1 now0)
  have v: "(0::int) = (case store ?m key of None \<Rightarrow> 0 | Some x \<Rightarrow> x)"
    by (simp add: FakeMemcache_init_def)
  have flags: "\<not> error_on_incr ?m" "\<not> init_incr_return_neg ?m"
    by (simp_all add: FakeMemcache_init_def)
  have range: "now0 = 0 \<or> 6000 \<le> now0"
  proof -
    from t0 show ?thesis
    proof
      assume "t0 = 0"
      then show ?thesis by (simp add: now0 py_round_def)
    next
      assume "6 \<le> t0"
      then have "of_int 6000 \<le> t0 * 1000" "0 \<le> t0 * 1000" by simp_all
      then have "6000 \<le> now0" unfolding now0 by (rule py_round_mono_ge)
      then show ?thesis ..
    qed
  qed
  then have near: "0 - now0 < 59000" by auto
  let ?m' = "?m\<lparr>store := (store ?m)(key \<mapsto> now0 + tpr)\<rparr>"
  have g: "get_sleep_time FakeMemcache_ops c key R w1 = (Inr 0, w1\<lparr>memcache_client := Some ?m'\<rparr>)"
    using get_sleep_time_fake [OF c R tpr now w1(1) flags v _ near] range tpr(2,3)
    by auto
  let ?w2 = "w1\<lparr>memcache_client := Some ?m'\<rparr>"
  let ?w3 = "if log_sleep_time_seconds c \<noteq> 0 \<and> 0 > log_sleep_time_seconds c
             then LOG (Warning_sleep_log 0 key) ?w2 else ?w2"
  have loop: "handle_ratelimit_loop FakeMemcache_ops c limits w1 = (Inr None, ?w3)"
    by (simp add: limits g Let_def)
  have "call FakeMemcache_ops c req w = call FakeMemcache_ops c req ?wa"
    by (rule call_attach [OF w(1) cache])
  also have "\<dots> = (Inr App_result, ?w3)"
    using tok by (simp add: call_def Let_def handle_ratelimit_def w0 kt loop)
  finally have call: "call FakeMemcache_ops c req w = (Inr App_result, ?w3)" .
  have "paced key now0 t0 tpr 1 ?w3"
    using flags by (simp add: paced_def LOG_def w1)
  then show ?thesis by (simp add: call)
qed

lemma run_paced:
  assumes c: "c = default_conf\<lparr>account_ratelimit := R, log_sleep_time_seconds := l\<rparr>"
    and R: "R \<noteq> 0" and tpr: "tpr = py_round (1000 / R)" "0 < tpr" "tpr \<le> 500"
    and meth: "req_method req \<in> set limitable_methods"
    and tok: "x_auth_token req = Some tok"
    and key: "key = ''ratelimit/'' @ tok"
    and now0: "now0 = py_round (t0 * 1000)" "0 \<le> t0"
    and k: "1 \<le> k"
    and paced: "paced key now0 t0 tpr k w"
  shows "fst (run FakeMemcache_ops c req n w) = Inr (replicate n App_result)
       \<and> paced key now0 t0 tpr (k + n) (snd (run FakeMemcache_ops c req n w))"
  using k paced
proof (induction n arbitrary: k w)
  case 0
  then show ?case by simp
next
  case (Suc n)
  obtain r w1 where cl: "call FakeMemcache_ops c req w = (r, w1)"
    by (cases "call FakeMemcache_ops c req w")
  from call_paced [OF c R tpr meth tok key now0 Suc.prems] cl
  have r: "r = Inr App_result" and p1: "paced key now0 t0 tpr (Suc k) w1" by simp_all
  obtain rs w2 where rn: "run FakeMemcache_ops c req n w1 = (rs, w2)"
    by (cases "run FakeMemcache_ops c req n w1")
  from Suc.IH [of "Suc k" w1] p1 rn
  have "rs = Inr (replicate n App_result)" "paced key now0 t0 tpr (Suc k + n) w2" by simp_all
  then show ?case by (simp add: cl r rn)
qed

lemma tpr_of_rate:
  assumes "R \<in> {2, 5, 10, 13}"
  shows "R \<noteq> 0" "0 < py_round (1000 / R)" "py_round (1000 / R) \<le> 500"
    "\<bar>of_int (py_round (1000 / R)) / 1000 - 1 / R\<bar> \<le> 1 / 2000"
  using assms by (auto simp: py_round_def)

text \<open>
  C2. One caller sends \<open>N \<ge> 1\<close> requests one after the other to a middleware whose
  only limit is the account rate \<open>R \<in> {2, 5, 10, 13}\<close>, on an empty store, sleeping
  every delay it is given (the clock moves by the sleeps only, starting at 0 as in the
  unit tests, or at any time from 6 s on). Every request reaches the application; the
  delays add up to \<open>(N - 1) * round(1000 / R) / 1000\<close> seconds, which differs from
  \<open>(N - 1) / R\<close> by at most half a clock unit for each delayed request; the first
  request is not delayed.
\<close>

theorem sequential_requests_delay:
  assumes R: "R \<in> {2, 5, 10, 13}"
    and N: "1 \<le> N"
    and t0: "t0 = 0 \<or> 6 \<le> t0"
    and c: "c = default_conf\<lparr>account_ratelimit := R, log_sleep_time_seconds := l\<rparr>"
    and meth: "req_method req \<in> set limitable_methods"
    and tok: "x_auth_token req = Some tok"
    and cache: "glance_cache req = Some FakeMemcache_init"
    and w: "memcache_client w = None" "time_ticker w = t0"
  shows "fst (run FakeMemcache_ops c req N w) = Inr (replicate N App_result)
       \<and> time_ticker (snd (run FakeMemcache_ops c req N w)) - t0
           = of_nat (N - 1) * (of_int (py_round (1000 / R)) / 1000)
       \<and> \<bar>time_ticker (snd (run FakeMemcache_ops c req N w)) - t0 - of_nat (N - 1) / R\<bar>
           \<le> of_nat (N - 1) * (1 / 2000)
       \<and> time_ticker (snd (call FakeMemcache_ops c req w)) = t0"
proof -
  let ?tpr = "py_round (1000 / R)"
  let ?key = "''ratelimit/'' @ tok"
  let ?now0 = "py_round (t0 * 1000)"
  note r = tpr_of_rate [OF R]
  from t0 have t0': "0 \<le> t0" by auto
  obtain n where n: "N = Suc n" using N by (cases N) simp_all
  obtain r1 w1 where cl: "call FakeMemcache_ops c req w = (r1, w1)"
    by (cases "call FakeMemcache_ops c req w")
  from call_first [OF c r(1) refl r(2,3) meth tok cache refl refl t0 w] cl
  have r1: "r1 = Inr App_result" and p1: "paced ?key ?now0 t0 ?tpr 1 w1" by simp_all
  obtain rs w2 where rn: "run FakeMemcache_ops c req n w1 = (rs, w2)"
    by (cases "run FakeMemcache_ops c req n w1")
  from run_paced [OF c r(1) refl r(2,3) meth tok refl refl t0' _ p1, of n] rn
  have rs: "rs = Inr (replicate n App_result)" and p2: "paced ?key ?now0 t0 ?tpr (1 + n) w2"
    by simp_all
  have run: "run FakeMemcache_ops c req N w = (Inr (replicate N App_result), w2)"
    by (simp add: n cl r1 rn rs)
  from p2 have t2: "time_ticker w2 - t0 = of_nat (N - 1) * (of_int ?tpr / 1000)"
    by (simp add: paced_def n split: option.splits)
  from p1 have t1: "time_ticker w1 = t0"
    by (simp add: paced_def split: option.splits)
  have "time_ticker w2 - t0 - of_nat (N - 1) / R
          = of_nat (N - 1) * (of_int ?tpr / 1000 - 1 / R)"
    by (simp add: t2 algebra_simps)
  then have "\<bar>time_ticker w2 - t0 - of_nat (N - 1) / R\<bar>
          = of_nat (N - 1) * \<bar>of_int ?tpr / 1000 - 1 / R\<bar>"
    by (simp add: abs_mult)
  also have "\<dots> \<le> of_nat (N - 1) * (1 / 2000)"
    by (rule mult_left_mono [OF r(4)]) simp
  finally show ?thesis
    by (simp add: run t2 cl t1)
qed

text \<open>
  The run of \<open>test_account_ratelimit\<close>: 50 PUT requests at rate 5 from the clock at 0
  take 9.8 s.
\<close>

theorem sequential_requests_delay_witness:
  "fst (run FakeMemcache_ops (default_conf\<lparr>account_ratelimit := 5, log_sleep_time_seconds := 1 / 100000\<rparr>)
          \<lparr>req_method = ''PUT'', x_auth_token = Some ''HPAuth10_123456789PUT'',
           glance_cache = Some FakeMemcache_init, matched_action = None\<rparr>
          50 \<lparr>memcache_client = None, time_ticker = 0, log = []\<rparr>)
     = Inr (replicate 50 App_result)
   \<and> time_ticker (snd (run FakeMemcache_ops
          (default_conf\<lparr>account_ratelimit := 5, log_sleep_time_seconds := 1 / 100000\<rparr>)
          \<lparr>req_method = ''PUT'', x_auth_token = Some ''HPAuth10_123456789PUT'',
           glance_cache = Some FakeMemcache_init, matched_action = None\<rparr>
          50 \<lparr>memcache_client = None, time_ticker = 0, log = []\<rparr>))
     = 49 / 5"
proof -
  let ?c = "default_conf\<lparr>account_ratelimit := 5, log_sleep_time_seconds := 1 / 100000\<rparr>"
  let ?req = "\<lparr>req_method = ''PUT'', x_auth_token = Some ''HPAuth10_123456789PUT'',
               glance_cache = Some FakeMemcache_init, matched_action = None\<rparr>"
  let ?w = "\<lparr>memcache_client = None, time_ticker = 0, log = []\<rparr> :: FakeMemcache world"
  have R: "(5::rat) \<in> {2, 5, 10, 13}" by simp
  have N: "1 \<le> (50::nat)" by simp
  have t: "(0::rat) = 0 \<or> 6 \<le> (0::rat)" by simp
  have meth: "req_method ?req \<in> set limitable_methods" by (simp add: limitable_methods_def)
  have tok: "x_auth_token ?req = Some ''HPAuth10_123456789PUT''" by simp
  have cache: "glance_cache ?req = Some FakeMemcache_init" by simp
  have w: "memcache_client ?w = None" "time_ticker ?w = 0" by simp_all
  from sequential_requests_delay [OF R N t refl meth tok cache w]
  show ?thesis by (simp add: py_round_def)
qed

end
